theory Spec2Isabelle
  imports Main "HOL-Library.Word"
begin

section \<open>UAST functions of gitbase (internal/function/uast.go)\<close>

text \<open>
  A shallow embedding of the UAST functions: \<open>uast\<close>, \<open>uast_mode\<close>, \<open>uast_xpath\<close>,
  \<open>uast_extract\<close>, \<open>uast_children\<close> and \<open>uast_imports\<close>.

  Go values are modelled as follows.
  \<^item> A function returning \<open>(value, error)\<close> returns a pair of an SQL value and an
    \<open>error option\<close>, or a sum \<open>error + 'a\<close> (\<open>Inl\<close> the error) where the value is
    only read when the error is nil.
  \<^item> A panic is an outcome of its own: a Go function body evaluates to \<open>Panics r\<close> or
    to \<open>Returns x\<close>. A deferred \<open>recover\<close> turns \<open>Panics r\<close> into a returned error;
    a function without it lets the panic leave.
  \<^item> Package variables and the external services are explicit: the tree cache, the
    hash object and the log of observable events are threaded through as a state.
  \<^item> Functions of other packages (the bblfsh client and SDK, go-mysql-server, the
    standard library) and the helpers of this package that live outside uast.go
    are parameters, collected in records.
\<close>

subsection \<open>Errors, panics and SQL values\<close>

text \<open>
  The error kinds the code distinguishes: \<open>ErrParseBlob\<close> and \<open>derrors.ErrSyntax\<close> are
  tested with \<open>Is\<close> in \<open>getUAST\<close>; every other error is \<open>Errorf\<close> with its message.
\<close>

datatype error = ErrParseBlob string | ErrSyntax string | Errorf string

datatype 'a go = Panics string | Returns 'a

type_synonym bytes = "8 word list"

text \<open>The \<open>interface{}\<close> results of \<open>Eval\<close>: nil, a blob, a string or an array.\<close>

datatype sqlval = SqlNull | SqlBlob bytes | SqlText string | SqlArray "sqlval list"

text \<open>
  The deferred function of the \<open>Eval\<close> methods:
  \<open>if r := recover(); r != nil { err = fmt.Errorf("<prefix>%s", r) }\<close>.
  The named result \<open>out\<close> is still nil when a panic interrupts the body.
\<close>

definition recover :: "string \<Rightarrow> (sqlval \<times> error option) go \<Rightarrow> (sqlval \<times> error option) go" where
  "recover prefix body =
     (case body of
        Panics r \<Rightarrow> Returns (SqlNull, Some (Errorf (prefix @ r)))
      | Returns x \<Rightarrow> Returns x)"

subsection \<open>Nodes\<close>

text \<open>
  \<open>nodes.Node\<close> is an interface implemented by \<open>nodes.Object\<close> (a map from keys to
  nodes), \<open>nodes.Array\<close> and the scalar values; the nil interface value is a node too
  (\<open>extractAnyProp\<close> tests \<open>v == nil\<close>). Scalars are left abstract as \<open>'v\<close>.
  An object is kept as an association list and read through \<open>map_of\<close>, as the code
  reads it through \<open>node[key]\<close>.
\<close>

datatype 'v node =
    NilNode
  | Object "(string \<times> 'v node) list"
  | Array "'v node list"
  | Value 'v

text \<open>The message of the runtime panic raised by a method call on a nil interface.\<close>

definition nil_deref :: string where
  "nil_deref = ''runtime error: invalid memory address or nil pointer dereference''"

text \<open>The reserved keys of the bblfsh SDK (\<open>uast.KeyType\<close> and so on).\<close>

definition KeyType :: string where "KeyType = ''@type''"
definition KeyToken :: string where "KeyToken = ''@token''"
definition KeyRoles :: string where "KeyRoles = ''@role''"
definition KeyPos :: string where "KeyPos = ''@pos''"

text \<open>
  The functions of the SDK and of go-mysql-server used by the extraction code:
  \<open>Keys\<close> is \<open>nodes.Object.Keys\<close>, the \<open>...Of\<close> fields are the accessors of package
  \<open>uast\<close> (\<open>PositionsOf\<close> returns nil when there is no position), \<open>role_String\<close> is
  \<open>role.Role.String\<close>, \<open>json_Marshal\<close> is \<open>json.Marshal\<close> on positions,
  \<open>Text_Convert\<close> is \<open>sql.Text.Convert\<close> applied to the native value of a scalar, and
  \<open>AllImportPaths\<close> is \<open>uast.AllImportPaths\<close>.
\<close>

record ('v, 'p) sdk =
  Keys :: "(string \<times> 'v node) list \<Rightarrow> string list"
  TypeOf :: "(string \<times> 'v node) list \<Rightarrow> string"
  TokenOf :: "(string \<times> 'v node) list \<Rightarrow> string"
  RolesOf :: "(string \<times> 'v node) list \<Rightarrow> int list"
  role_String :: "int \<Rightarrow> string"
  PositionsOf :: "(string \<times> 'v node) list \<Rightarrow> 'p option"
  json_Marshal :: "'p \<Rightarrow> error + string"
  Text_Convert :: "'v \<Rightarrow> error + sqlval"
  AllImportPaths :: "'v node \<Rightarrow> string list go"

subsection \<open>Property extraction\<close>

definition isCommonProp :: "string \<Rightarrow> bool" where
  "isCommonProp key \<longleftrightarrow> key = KeyType \<or> key = KeyToken \<or> key = KeyRoles \<or> key = KeyPos"

definition posToString :: "('v, 'p) sdk \<Rightarrow> 'p \<Rightarrow> string" where
  "posToString S pos = (case json_Marshal S pos of Inr data \<Rightarrow> data | Inl err \<Rightarrow> [])"

text \<open>
  The \<open>switch key\<close> of \<open>extractCommonProp\<close>; a nil slice and an empty slice are both
  the empty list, the caller only reads the length.
\<close>

definition extractCommonProp :: "('v, 'p) sdk \<Rightarrow> (string \<times> 'v node) list \<Rightarrow> string \<Rightarrow> sqlval list" where
  "extractCommonProp S node key =
     (if key = KeyType then
        (let t = TypeOf S node in if t \<noteq> [] then [SqlText t] else [])
      else if key = KeyToken then
        (let t = TokenOf S node in if t \<noteq> [] then [SqlText t] else [])
      else if key = KeyRoles then
        (let r = RolesOf S node in
         if length r > 0 then map (\<lambda>role. SqlText (role_String S role)) r else [])
      else if key = KeyPos then
        (case PositionsOf S node of
           None \<Rightarrow> []
         | Some p \<Rightarrow> (let s = posToString S p in if s \<noteq> [] then [SqlText s] else []))
      else [])"

definition valueToString :: "('v, 'p) sdk \<Rightarrow> 'v \<Rightarrow> error + sqlval" where
  "valueToString S n = Text_Convert S n"

text \<open>
  The loop of \<open>valuesFromNodeArray\<close>, with the slice \<open>values\<close> as accumulator.
  \<open>n.Kind()\<close> on a nil element is a nil dereference.
\<close>

fun valuesFromNodeArray_loop ::
  "('v, 'p) sdk \<Rightarrow> 'v node list \<Rightarrow> sqlval list \<Rightarrow> (error + sqlval list) go" where
  "valuesFromNodeArray_loop S [] values = Returns (Inr values)"
| "valuesFromNodeArray_loop S (n # arr) values =
     (case n of
        NilNode \<Rightarrow> Panics nil_deref
      | Value v \<Rightarrow>
          (case valueToString S v of
             Inl err \<Rightarrow> Returns (Inl err)
           | Inr s \<Rightarrow> valuesFromNodeArray_loop S arr (values @ [s]))
      | Object kvs \<Rightarrow> valuesFromNodeArray_loop S arr values
      | Array xs \<Rightarrow> valuesFromNodeArray_loop S arr values)"

definition valuesFromNodeArray :: "('v, 'p) sdk \<Rightarrow> 'v node list \<Rightarrow> (error + sqlval list) go" where
  "valuesFromNodeArray S arr = valuesFromNodeArray_loop S arr []"

definition extractAnyProp :: "('v, 'p) sdk \<Rightarrow> (string \<times> 'v node) list \<Rightarrow> string \<Rightarrow> sqlval list go" where
  "extractAnyProp S node key =
     (case map_of node key of
        None \<Rightarrow> Returns []
      | Some NilNode \<Rightarrow> Returns []
      | Some (Value v) \<Rightarrow>
          (case valueToString S v of
             Inl err \<Rightarrow> Returns []
           | Inr val \<Rightarrow> Returns [val])
      | Some (Array arr) \<Rightarrow>
          (case valuesFromNodeArray S arr of
             Panics r \<Rightarrow> Panics r
           | Returns (Inl err) \<Rightarrow> Returns []
           | Returns (Inr values) \<Rightarrow> Returns values)
      | Some (Object kvs) \<Rightarrow> Returns [])"

definition extractProperties :: "('v, 'p) sdk \<Rightarrow> 'v node \<Rightarrow> string \<Rightarrow> sqlval list go" where
  "extractProperties S n key =
     (case n of
        Object node \<Rightarrow>
          (if isCommonProp key then Returns (extractCommonProp S node key)
           else extractAnyProp S node key)
      | NilNode \<Rightarrow> Returns []
      | Array xs \<Rightarrow> Returns []
      | Value v \<Rightarrow> Returns [])"

subsection \<open>Children\<close>

text \<open>
  The inner loop of \<open>getChildren\<close> over the elements of an array-valued child, and
  its outer loop over \<open>node.Keys()\<close>; \<open>children\<close> is the slice that both append to.
  \<open>c.Kind()\<close> and \<open>n.Kind()\<close> are method calls on the interface value: on nil they
  panic.
\<close>

fun getChildren_elems :: "'v node list \<Rightarrow> 'v node list \<Rightarrow> 'v node list go" where
  "getChildren_elems [] children = Returns children"
| "getChildren_elems (n # arr) children =
     (case n of
        NilNode \<Rightarrow> Panics nil_deref
      | Object kvs \<Rightarrow> getChildren_elems arr (children @ [n])
      | Array xs \<Rightarrow> getChildren_elems arr children
      | Value v \<Rightarrow> getChildren_elems arr children)"

fun getChildren_keys ::
  "(string \<times> 'v node) list \<Rightarrow> string list \<Rightarrow> 'v node list \<Rightarrow> 'v node list go" where
  "getChildren_keys node [] children = Returns children"
| "getChildren_keys node (key # keys) children =
     (if isCommonProp key then getChildren_keys node keys children
      else
        (case map_of node key of
           None \<Rightarrow> getChildren_keys node keys children
         | Some c \<Rightarrow>
             (case c of
                NilNode \<Rightarrow> Panics nil_deref
              | Object kvs \<Rightarrow> getChildren_keys node keys (children @ [c])
              | Array arr \<Rightarrow>
                  (case getChildren_elems arr children of
                     Panics r \<Rightarrow> Panics r
                   | Returns children' \<Rightarrow> getChildren_keys node keys children')
              | Value v \<Rightarrow> getChildren_keys node keys children)))"

definition getChildren :: "('v, 'p) sdk \<Rightarrow> (string \<times> 'v node) list \<Rightarrow> 'v node list go" where
  "getChildren S node = getChildren_keys node (Keys S node) []"

text \<open>The loop of \<open>flattenChildren\<close>; a node that is not an object is skipped.\<close>

fun flattenChildren_loop :: "('v, 'p) sdk \<Rightarrow> 'v node list \<Rightarrow> 'v node list \<Rightarrow> 'v node list go" where
  "flattenChildren_loop S [] children = Returns children"
| "flattenChildren_loop S (n # arr) children =
     (case n of
        Object obj \<Rightarrow>
          (case getChildren S obj of
             Panics r \<Rightarrow> Panics r
           | Returns c \<Rightarrow>
               flattenChildren_loop S arr (if length c > 0 then children @ c else children))
      | NilNode \<Rightarrow> flattenChildren_loop S arr children
      | Array xs \<Rightarrow> flattenChildren_loop S arr children
      | Value v \<Rightarrow> flattenChildren_loop S arr children)"

definition flattenChildren :: "('v, 'p) sdk \<Rightarrow> 'v node list \<Rightarrow> 'v node list go" where
  "flattenChildren S arr = flattenChildren_loop S arr []"

subsection \<open>Helpers of the package defined outside uast.go\<close>

text \<open>
  \<open>getNodes\<close>, \<open>marshalNodes\<close> and \<open>applyXpath\<close> are called by uast.go and defined in
  another file of the package; they wrap the decoder, the encoder and the XPath
  evaluator of the SDK and are parameters here. \<open>getNodes\<close> returns a nil array
  (\<open>None\<close>) or an array; \<open>marshalNodes\<close> returns the pair \<open>(interface{}, error)\<close>.
  The argument expressions of a function are given by the outcome of evaluating them
  on the row: \<open>(error + sqlval) go\<close> for \<open>Eval\<close>, \<open>(error + string) go\<close> for
  \<open>exprToString\<close>.
\<close>

record 'v helpers =
  getNodes :: "sqlval \<Rightarrow> (error + 'v node list option) go"
  marshalNodes :: "'v node list \<Rightarrow> (sqlval \<times> error option) go"
  applyXpath :: "'v node \<Rightarrow> string \<Rightarrow> (error + 'v node list) go"

subsection \<open>uast_xpath\<close>

text \<open>The loop of \<open>UASTXPath.Eval\<close> over the nodes, appending each partial result.\<close>

fun UASTXPath_loop ::
  "'v helpers \<Rightarrow> string \<Rightarrow> 'v node list \<Rightarrow> 'v node list \<Rightarrow> (error + 'v node list) go" where
  "UASTXPath_loop H xpath [] filtered = Returns (Inr filtered)"
| "UASTXPath_loop H xpath (n # ns) filtered =
     (case applyXpath H n xpath of
        Panics r \<Rightarrow> Panics r
      | Returns (Inl err) \<Rightarrow> Returns (Inl err)
      | Returns (Inr partial) \<Rightarrow> UASTXPath_loop H xpath ns (filtered @ partial))"

definition UASTXPath_body ::
  "'v helpers \<Rightarrow> (error + sqlval) go \<Rightarrow> (error + string) go \<Rightarrow> (sqlval \<times> error option) go" where
  "UASTXPath_body H eLeft eRight =
     (case eRight of
        Panics r \<Rightarrow> Panics r
      | Returns (Inl err) \<Rightarrow> Returns (SqlNull, Some err)
      | Returns (Inr xpath) \<Rightarrow>
          if xpath = [] then Returns (SqlNull, None)
          else
            (case eLeft of
               Panics r \<Rightarrow> Panics r
             | Returns (Inl err) \<Rightarrow> Returns (SqlNull, Some err)
             | Returns (Inr left) \<Rightarrow>
                 (case getNodes H left of
                    Panics r \<Rightarrow> Panics r
                  | Returns (Inl err) \<Rightarrow> Returns (SqlNull, Some err)
                  | Returns (Inr None) \<Rightarrow> Returns (SqlNull, None)
                  | Returns (Inr (Some ns)) \<Rightarrow>
                      (case UASTXPath_loop H xpath ns [] of
                         Panics r \<Rightarrow> Panics r
                       | Returns (Inl err) \<Rightarrow> Returns (SqlNull, Some err)
                       | Returns (Inr filtered) \<Rightarrow> marshalNodes H filtered))))"

definition UASTXPath_Eval ::
  "'v helpers \<Rightarrow> (error + sqlval) go \<Rightarrow> (error + string) go \<Rightarrow> (sqlval \<times> error option) go" where
  "UASTXPath_Eval H eLeft eRight = recover ''uastxpath: unknown error: '' (UASTXPath_body H eLeft eRight)"

subsection \<open>uast_extract\<close>

fun UASTExtract_loop ::
  "('v, 'p) sdk \<Rightarrow> string \<Rightarrow> 'v node list \<Rightarrow> sqlval list \<Rightarrow> sqlval list go" where
  "UASTExtract_loop S key [] extracted = Returns extracted"
| "UASTExtract_loop S key (n # ns) extracted =
     (case extractProperties S n key of
        Panics r \<Rightarrow> Panics r
      | Returns props \<Rightarrow>
          UASTExtract_loop S key ns (if length props > 0 then extracted @ props else extracted))"

definition UASTExtract_body ::
  "('v, 'p) sdk \<Rightarrow> 'v helpers \<Rightarrow> (error + sqlval) go \<Rightarrow> (error + string) go
     \<Rightarrow> (sqlval \<times> error option) go" where
  "UASTExtract_body S H eLeft eRight =
     (case eLeft of
        Panics r \<Rightarrow> Panics r
      | Returns (Inl err) \<Rightarrow> Returns (SqlNull, Some err)
      | Returns (Inr left) \<Rightarrow>
          (case getNodes H left of
             Panics r \<Rightarrow> Panics r
           | Returns (Inl err) \<Rightarrow> Returns (SqlNull, Some err)
           | Returns (Inr None) \<Rightarrow> Returns (SqlNull, None)
           | Returns (Inr (Some ns)) \<Rightarrow>
               (case eRight of
                  Panics r \<Rightarrow> Panics r
                | Returns (Inl err) \<Rightarrow> Returns (SqlNull, Some err)
                | Returns (Inr key) \<Rightarrow>
                    if key = [] then Returns (SqlNull, None)
                    else
                      (case UASTExtract_loop S key ns [] of
                         Panics r \<Rightarrow> Panics r
                       | Returns extracted \<Rightarrow> Returns (SqlArray extracted, None)))))"

definition UASTExtract_Eval ::
  "('v, 'p) sdk \<Rightarrow> 'v helpers \<Rightarrow> (error + sqlval) go \<Rightarrow> (error + string) go
     \<Rightarrow> (sqlval \<times> error option) go" where
  "UASTExtract_Eval S H eLeft eRight = recover ''uast: unknown error: '' (UASTExtract_body S H eLeft eRight)"

subsection \<open>uast_children\<close>

definition UASTChildren_body ::
  "('v, 'p) sdk \<Rightarrow> 'v helpers \<Rightarrow> (error + sqlval) go \<Rightarrow> (sqlval \<times> error option) go" where
  "UASTChildren_body S H eChild =
     (case eChild of
        Panics r \<Rightarrow> Panics r
      | Returns (Inl err) \<Rightarrow> Returns (SqlNull, Some err)
      | Returns (Inr child) \<Rightarrow>
          (case getNodes H child of
             Panics r \<Rightarrow> Panics r
           | Returns (Inl err) \<Rightarrow> Returns (SqlNull, Some err)
           | Returns (Inr None) \<Rightarrow> Returns (SqlNull, None)
           | Returns (Inr (Some ns)) \<Rightarrow>
               (case flattenChildren S ns of
                  Panics r \<Rightarrow> Panics r
                | Returns children \<Rightarrow> marshalNodes H children)))"

definition UASTChildren_Eval ::
  "('v, 'p) sdk \<Rightarrow> 'v helpers \<Rightarrow> (error + sqlval) go \<Rightarrow> (sqlval \<times> error option) go" where
  "UASTChildren_Eval S H eChild = recover ''uast: unknown error: '' (UASTChildren_body S H eChild)"

subsection \<open>uast_imports\<close>

text \<open>
  The loop of \<open>UASTImports.Eval\<close> fills \<open>result[i]\<close> for \<open>i\<close> from 0 to the size of the
  array: the accumulator holds the entries written so far.
\<close>

fun UASTImports_loop :: "('v, 'p) sdk \<Rightarrow> 'v node list \<Rightarrow> sqlval list \<Rightarrow> sqlval list go" where
  "UASTImports_loop S [] result = Returns result"
| "UASTImports_loop S (n # ns) result =
     (case AllImportPaths S n of
        Panics r \<Rightarrow> Panics r
      | Returns imports \<Rightarrow> UASTImports_loop S ns (result @ [SqlArray (map SqlText imports)]))"

text \<open>\<open>UASTImports.Eval\<close> has no deferred function: its body is the whole method.\<close>

definition UASTImports_Eval ::
  "('v, 'p) sdk \<Rightarrow> 'v helpers \<Rightarrow> (error + sqlval) go \<Rightarrow> (sqlval \<times> error option) go" where
  "UASTImports_Eval S H eChild =
     (case eChild of
        Panics r \<Rightarrow> Panics r
      | Returns (Inl err) \<Rightarrow> Returns (SqlNull, Some err)
      | Returns (Inr child) \<Rightarrow>
          (case getNodes H child of
             Panics r \<Rightarrow> Panics r
           | Returns (Inl err) \<Rightarrow> Returns (SqlNull, Some err)
           | Returns (Inr None) \<Rightarrow> Returns (SqlNull, None)
           | Returns (Inr (Some ns)) \<Rightarrow>
               (case UASTImports_loop S ns [] of
                  Panics r \<Rightarrow> Panics r
                | Returns result \<Rightarrow> Returns (SqlArray result, None))))"

subsection \<open>Configuration\<close>

definition uastCacheSizeKey :: string where "uastCacheSizeKey = ''GITBASE_UAST_CACHE_SIZE''"
definition defaultUASTCacheSize :: int where "defaultUASTCacheSize = 10000"
definition uastMaxBlobSizeKey :: string where "uastMaxBlobSizeKey = ''GITBASE_MAX_UAST_BLOB_SIZE''"
definition defaultUASTMaxBlobSize :: int where "defaultUASTMaxBlobSize = 5 * 1024 * 1024"

text \<open>The process environment and \<open>strconv.Atoi\<close>, as \<open>init\<close> uses them.\<close>

record osenv =
  Getenv :: "string \<Rightarrow> string"
  Atoi :: "string \<Rightarrow> error + int"

text \<open>The package variables set by \<open>init\<close>.\<close>

record config =
  uastCacheSize :: int
  uastMaxBlobSize :: int

definition init :: "osenv \<Rightarrow> config" where
  "init os =
     (let sz = (case Atoi os (Getenv os uastCacheSizeKey) of
                  Inl err \<Rightarrow> defaultUASTCacheSize
                | Inr n \<Rightarrow> if n \<le> 0 then defaultUASTCacheSize else n);
          maxBlob = (case Atoi os (Getenv os uastMaxBlobSizeKey) of
                       Inl err \<Rightarrow> defaultUASTMaxBlobSize
                     | Inr n \<Rightarrow> n)
      in \<lparr>uastCacheSize = sz, uastMaxBlobSize = maxBlob\<rparr>)"

subsection \<open>State, events and collaborators of uast and uast_mode\<close>

text \<open>The parse modes of the bblfsh client.\<close>

datatype mode = ModeNative | ModeAnnotated | ModeSemantic

text \<open>
  What an evaluation does beyond returning: the log entries of logrus (a warning with
  its fields, an error with its \<open>err\<close> field), the warning put on the SQL context, the
  creation of the cache, a store into it, a request sent to the parser, and the
  metrics recorded by the closure of \<open>observeQuery\<close>.
\<close>

datatype event =
    LogWarn "(string \<times> int) list" string
  | CtxWarn nat string
  | LogError error string
  | CacheNew nat
  | CachePut "64 word"
  | ParseCall bytes string string mode
  | Observe string string bool

text \<open>
  The package variable \<open>uastCache\<close> (nil until created), the hash object \<open>u.h\<close> of the
  function, and the events so far.
\<close>

record ('c, 'h) ustate =
  uastCache :: "'c option"
  u_h :: 'h
  events :: "event list"

text \<open>
  The collaborators: \<open>bblfsh.ParseMode\<close> and \<open>Mode.String\<close>, \<open>sql.Blob.Convert\<close>,
  \<open>unicode.ToLower\<close> mapped over a string, \<open>ctx.Memory.NewLRUCache\<close> and the \<open>Get\<close>
  and \<open>Put\<close> of the cache it returns (\<open>Get\<close> reports a miss by an error, \<open>None\<close>
  here), and \<open>getUASTFromBblfsh\<close>, the request to the parser, which may answer
  differently over time and so also depends on the events so far.
\<close>

record ('v, 'c) env =
  ParseMode :: "string \<Rightarrow> error + mode"
  mode_String :: "mode \<Rightarrow> string"
  Blob_Convert :: "sqlval \<Rightarrow> error + bytes"
  unicode_ToLower :: "string \<Rightarrow> string"
  NewLRUCache :: "nat \<Rightarrow> 'c"
  cache_Get :: "'c \<Rightarrow> 64 word \<Rightarrow> 'v node option \<times> 'c"
  cache_Put :: "'c \<Rightarrow> 64 word \<Rightarrow> 'v node \<Rightarrow> error option \<times> 'c"
  getUASTFromBblfsh :: "event list \<Rightarrow> bytes \<Rightarrow> string \<Rightarrow> string \<Rightarrow> mode \<Rightarrow> (error + 'v node) go"

text \<open>The argument expressions of \<open>uastFunc\<close>, evaluated on the row.\<close>

record args =
  a_Mode :: "(error + string) go"
  a_Blob :: "(error + sqlval) go"
  a_Lang :: "(error + string) go"
  a_XPath :: "(error + string) go"

subsection \<open>The cache key\<close>

text \<open>
  The \<open>hash.Hash64\<close> interface of the standard library: \<open>Reset\<close> puts the object back
  into its initial state, \<open>Write\<close> may fail, \<open>Sum64\<close> reads the digest.
\<close>

record 'h hash64 =
  hash_Initial :: 'h
  hash_Write :: "'h \<Rightarrow> bytes \<Rightarrow> error + 'h"
  hash_Sum64 :: "'h \<Rightarrow> 64 word"

definition bytes_of :: "string \<Rightarrow> bytes" where
  "bytes_of s = map (\<lambda>c. word_of_nat (of_char c)) s"

fun writeToHash :: "'h hash64 \<Rightarrow> 'h \<Rightarrow> bytes list \<Rightarrow> error option \<times> 'h" where
  "writeToHash P h [] = (None, h)"
| "writeToHash P h (e # elements) =
     (case hash_Write P h e of
        Inl err \<Rightarrow> (Some err, h)
      | Inr h' \<Rightarrow> writeToHash P h' elements)"

text \<open>
  Modelled from the spec: the package function \<open>computeKey\<close> (and \<open>newHash\<close>) called by
  \<open>uastFunc.computeKey\<close> is not in uast.go. The specification describes it as
  \<open>fingerprint(mode, language, content) -> uint64\<close>, pure and deterministic, over a
  shared stateful hash object, failing only when the hash primitive fails to write.
  The model therefore starts from the initial state of the hash object, writes the
  mode, the language and the content, and reads the 64-bit digest; it returns the
  hash object in the state it leaves it in.
\<close>

definition computeKey ::
  "'h hash64 \<Rightarrow> 'h \<Rightarrow> string \<Rightarrow> string \<Rightarrow> bytes \<Rightarrow> (error + 64 word) \<times> 'h" where
  "computeKey P h mode lang blob =
     (case writeToHash P (hash_Initial P) [bytes_of mode, bytes_of lang, blob] of
        (Some err, h') \<Rightarrow> (Inl err, h')
      | (None, h') \<Rightarrow> (Inr (hash_Sum64 P h'), h'))"

text \<open>\<open>uastFunc.computeKey\<close>: the call above on \<open>u.h\<close>, under the mutex \<open>u.m\<close>.\<close>

definition uastFunc_computeKey ::
  "'h hash64 \<Rightarrow> 'h \<Rightarrow> string \<Rightarrow> string \<Rightarrow> bytes \<Rightarrow> (error + 64 word) \<times> 'h" where
  "uastFunc_computeKey P h mode lang blob = computeKey P h mode lang blob"

subsection \<open>The tree cache\<close>

text \<open>\<open>uint(uastCacheSize)\<close>: the conversion of a 64-bit \<open>int\<close> wraps a negative value.\<close>

definition uint_of_int :: "int \<Rightarrow> nat" where
  "uint_of_int i = nat (i mod 2 ^ 64)"

text \<open>
  \<open>getUASTCache\<close>, under the mutex \<open>uastmut\<close>: the cache is created when the variable
  is nil; the dispose function returned with it is dropped.
\<close>

definition getUASTCache ::
  "('v, 'c) env \<Rightarrow> config \<Rightarrow> ('c, 'h) ustate \<Rightarrow> 'c \<times> ('c, 'h) ustate" where
  "getUASTCache E cfg s =
     (case uastCache s of
        None \<Rightarrow>
          (let c = NewLRUCache E (uint_of_int (uastCacheSize cfg))
           in (c, s\<lparr>uastCache := Some c,
                    events := events s @ [CacheNew (uint_of_int (uastCacheSize cfg))]\<rparr>))
      | Some c \<Rightarrow> (c, s))"

subsection \<open>Resolving and filtering a tree\<close>

text \<open>
  The end of \<open>getUAST\<close>: \<open>marshalNodes\<close> on the node array, the error logged and
  dropped, and \<open>finish(!cacheMiss)\<close> before the result is returned.
\<close>

definition getUAST_marshal ::
  "'v helpers \<Rightarrow> string \<Rightarrow> string \<Rightarrow> bool \<Rightarrow> 'v node list \<Rightarrow> ('c, 'h) ustate
     \<Rightarrow> (sqlval \<times> error option) go \<times> ('c, 'h) ustate" where
  "getUAST_marshal H lang xpath cacheMiss nodeArray s =
     (case marshalNodes H nodeArray of
        Panics r \<Rightarrow> (Panics r, s)
      | Returns (result, Some err) \<Rightarrow>
          (Returns (SqlNull, None),
           s\<lparr>events := events s @ [LogError err ''unable to marshal UAST nodes'']\<rparr>)
      | Returns (result, None) \<Rightarrow>
          (Returns (result, None),
           s\<lparr>events := events s @ [Observe lang xpath (\<not> cacheMiss)]\<rparr>))"

text \<open>
  The filter step of \<open>getUAST\<close> on the resolved node: the node itself when \<open>xpath\<close> is
  empty, \<open>applyXpath\<close> otherwise, whose error is logged and dropped.
\<close>

definition getUAST_filter ::
  "'v helpers \<Rightarrow> string \<Rightarrow> string \<Rightarrow> bool \<Rightarrow> 'v node \<Rightarrow> ('c, 'h) ustate
     \<Rightarrow> (sqlval \<times> error option) go \<times> ('c, 'h) ustate" where
  "getUAST_filter H lang xpath cacheMiss node s =
     (if xpath = [] then getUAST_marshal H lang xpath cacheMiss [node] s
      else
        (case applyXpath H node xpath of
           Panics r \<Rightarrow> (Panics r, s)
         | Returns (Inl err) \<Rightarrow>
             (Returns (SqlNull, None),
              s\<lparr>events := events s @ [LogError err (''unable to filter node using xpath: '' @ xpath)]\<rparr>)
         | Returns (Inr nodeArray) \<Rightarrow> getUAST_marshal H lang xpath cacheMiss nodeArray s))"

text \<open>The test \<open>ErrParseBlob.Is(err) || derrors.ErrSyntax.Is(err)\<close>.\<close>

fun is_soft_failure :: "error \<Rightarrow> bool" where
  "is_soft_failure (ErrParseBlob m) = True"
| "is_soft_failure (ErrSyntax m) = True"
| "is_soft_failure (Errorf m) = False"

text \<open>
  \<open>uastFunc.getUAST\<close> up to the end of its \<open>if !cacheMiss ... else ...\<close>: either the
  function has returned (\<open>Done\<close>) or \<open>node\<close> and \<open>cacheMiss\<close> are set (\<open>Resolved\<close>).
  The value found in the cache is asserted to be a \<open>nodes.Node\<close>, which panics on a
  nil interface value.
\<close>

datatype 'v resolved = Done "(sqlval \<times> error option) go" | Resolved "'v node" bool

definition getUAST_resolve ::
  "('v, 'c) env \<Rightarrow> 'h hash64 \<Rightarrow> config \<Rightarrow> bytes \<Rightarrow> string \<Rightarrow> string \<Rightarrow> mode
     \<Rightarrow> ('c, 'h) ustate \<Rightarrow> 'v resolved \<times> ('c, 'h) ustate" where
  "getUAST_resolve E P cfg blob lang xpath mode s =
     (let (kr, h') = uastFunc_computeKey P (u_h s) (mode_String E mode) lang blob;
          s1 = s\<lparr>u_h := h'\<rparr>
      in case kr of
           Inl err \<Rightarrow> (Done (Returns (SqlNull, Some err)), s1)
         | Inr key \<Rightarrow>
             (let (c, s2) = getUASTCache E cfg s1;
                  (val, c') = cache_Get E c key;
                  s3 = s2\<lparr>uastCache := Some c'\<rparr>
              in case val of
                   Some NilNode \<Rightarrow>
                     (Done (Panics ''interface conversion: interface is nil, not nodes.Node''), s3)
                 | Some node \<Rightarrow> (Resolved node False, s3)
                 | None \<Rightarrow>
                     (let s4 = s3\<lparr>events := events s3 @ [ParseCall blob lang xpath mode]\<rparr>
                      in case getUASTFromBblfsh E (events s3) blob lang xpath mode of
                           Panics r \<Rightarrow> (Done (Panics r), s4)
                         | Returns (Inl err) \<Rightarrow>
                             (if is_soft_failure err then (Done (Returns (SqlNull, None)), s4)
                              else (Done (Returns (SqlNull, Some err)), s4))
                         | Returns (Inr node) \<Rightarrow>
                             (let (perr, c'') = cache_Put E c' key node;
                                  s5 = s4\<lparr>uastCache := Some c'',
                                          events := events s4 @ [CachePut key]\<rparr>
                              in case perr of
                                   Some err \<Rightarrow> (Done (Returns (SqlNull, Some err)), s5)
                                 | None \<Rightarrow> (Resolved node True, s5)))))"

text \<open>\<open>uastFunc.getUAST\<close>: the resolution, then the filter and the encoding.\<close>

definition getUAST ::
  "('v, 'c) env \<Rightarrow> 'h hash64 \<Rightarrow> 'v helpers \<Rightarrow> config \<Rightarrow> bytes \<Rightarrow> string \<Rightarrow> string \<Rightarrow> mode
     \<Rightarrow> ('c, 'h) ustate \<Rightarrow> (sqlval \<times> error option) go \<times> ('c, 'h) ustate" where
  "getUAST E P H cfg blob lang xpath mode s =
     (case getUAST_resolve E P cfg blob lang xpath mode s of
        (Done r, s') \<Rightarrow> (r, s')
      | (Resolved node cacheMiss, s') \<Rightarrow> getUAST_filter H lang xpath cacheMiss node s')"

subsection \<open>uast and uast_mode\<close>

text \<open>
  \<open>strings.ToLower\<close>: a string of ASCII bytes has its upper-case letters shifted by
  \<open>'a' - 'A'\<close>; any other string is mapped by \<open>unicode.ToLower\<close>.
\<close>

definition ascii_lower :: "char \<Rightarrow> char" where
  "ascii_lower c =
     (if (65::nat) \<le> of_char c \<and> of_char c \<le> (90::nat) then char_of (of_char c + (32::nat)) else c)"

definition ToLower :: "('v, 'c) env \<Rightarrow> string \<Rightarrow> string" where
  "ToLower E s =
     (if list_all (\<lambda>c. of_char c < (128::nat)) s then map ascii_lower s
      else unicode_ToLower E s)"

definition too_big_msg :: string where
  "too_big_msg =
     ''uast will be skipped, file is too big to send to bblfsh.'' @
     ''This can be configured using '' @ uastMaxBlobSizeKey @ '' environment variable''"

definition uastFunc_body ::
  "('v, 'c) env \<Rightarrow> 'h hash64 \<Rightarrow> 'v helpers \<Rightarrow> config \<Rightarrow> args
     \<Rightarrow> ('c, 'h) ustate \<Rightarrow> (sqlval \<times> error option) go \<times> ('c, 'h) ustate" where
  "uastFunc_body E P H cfg a s =
     (case a_Mode a of
        Panics r \<Rightarrow> (Panics r, s)
      | Returns (Inl err) \<Rightarrow> (Returns (SqlNull, Some err), s)
      | Returns (Inr m) \<Rightarrow>
     (case ParseMode E m of
        Inl err \<Rightarrow> (Returns (SqlNull, Some err), s)
      | Inr mode \<Rightarrow>
     (case a_Blob a of
        Panics r \<Rightarrow> (Panics r, s)
      | Returns (Inl err) \<Rightarrow> (Returns (SqlNull, Some err), s)
      | Returns (Inr SqlNull) \<Rightarrow> (Returns (SqlNull, None), s)
      | Returns (Inr blob) \<Rightarrow>
     (case Blob_Convert E blob of
        Inl err \<Rightarrow> (Returns (SqlNull, Some err), s)
      | Inr bytes \<Rightarrow>
          if length bytes = 0 then (Returns (SqlNull, None), s)
          else if uastMaxBlobSize cfg \<ge> 0 \<and> int (length bytes) > uastMaxBlobSize cfg then
            (Returns (SqlNull, None),
             s\<lparr>events := events s @
                  [LogWarn [(''max'', uastMaxBlobSize cfg), (''size'', int (length bytes))] too_big_msg,
                   CtxWarn 0 too_big_msg]\<rparr>)
          else
     (case a_Lang a of
        Panics r \<Rightarrow> (Panics r, s)
      | Returns (Inl err) \<Rightarrow> (Returns (SqlNull, Some err), s)
      | Returns (Inr lang) \<Rightarrow>
     (case a_XPath a of
        Panics r \<Rightarrow> (Panics r, s)
      | Returns (Inl err) \<Rightarrow> (Returns (SqlNull, Some err), s)
      | Returns (Inr xpath) \<Rightarrow> getUAST E P H cfg bytes (ToLower E lang) xpath mode s))))))"

text \<open>\<open>uastFunc.Eval\<close>: the body under the deferred \<open>recover\<close>.\<close>

definition uastFunc_Eval ::
  "('v, 'c) env \<Rightarrow> 'h hash64 \<Rightarrow> 'v helpers \<Rightarrow> config \<Rightarrow> args
     \<Rightarrow> ('c, 'h) ustate \<Rightarrow> (sqlval \<times> error option) go \<times> ('c, 'h) ustate" where
  "uastFunc_Eval E P H cfg a s =
     (let (r, s') = uastFunc_body E P H cfg a s
      in (recover ''uast: unknown error: '' r, s'))"

subsection \<open>Runs of evaluations\<close>

text \<open>
  The host engine calls \<open>Eval\<close> once per row; a run is the state after a list of such
  calls, each on the state the previous one left.
\<close>

fun run_evals ::
  "('v, 'c) env \<Rightarrow> 'h hash64 \<Rightarrow> 'v helpers \<Rightarrow> config \<Rightarrow> args list
     \<Rightarrow> ('c, 'h) ustate \<Rightarrow> ('c, 'h) ustate" where
  "run_evals E P H cfg [] s = s"
| "run_evals E P H cfg (a # as) s = run_evals E P H cfg as (snd (uastFunc_Eval E P H cfg a s))"

fun is_ParseCall :: "event \<Rightarrow> bool" where
  "is_ParseCall (ParseCall blob lang xpath mode) = True"
| "is_ParseCall ev = False"

fun is_CachePut :: "event \<Rightarrow> bool" where
  "is_CachePut (CachePut key) = True"
| "is_CachePut ev = False"

fun is_CacheNew :: "event \<Rightarrow> bool" where
  "is_CacheNew (CacheNew n) = True"
| "is_CacheNew ev = False"

subsection \<open>The children of a node, as the specification describes them\<close>

text \<open>
  For each key of the node in the order \<open>Keys\<close> enumerates them, the four common keys
  left out: an object-valued child itself, the object elements of an array-valued
  child in array order, nothing for anything else.
\<close>

fun is_Object :: "'v node \<Rightarrow> bool" where
  "is_Object (Object kvs) = True"
| "is_Object n = False"

definition children_of_key :: "(string \<times> 'v node) list \<Rightarrow> string \<Rightarrow> 'v node list" where
  "children_of_key node key =
     (case map_of node key of
        Some (Object kvs) \<Rightarrow> [Object kvs]
      | Some (Array arr) \<Rightarrow> filter is_Object arr
      | _ \<Rightarrow> [])"

definition children_spec :: "('v, 'p) sdk \<Rightarrow> 'v node \<Rightarrow> 'v node list" where
  "children_spec S n =
     (case n of
        Object node \<Rightarrow>
          concat (map (children_of_key node) (filter (\<lambda>key. \<not> isCommonProp key) (Keys S node)))
      | _ \<Rightarrow> [])"

definition flatten_spec :: "('v, 'p) sdk \<Rightarrow> 'v node list \<Rightarrow> 'v node list" where
  "flatten_spec S arr = concat (map (children_spec S) arr)"

text \<open>
  No child that \<open>getChildren\<close> inspects is the nil interface value: the values of the
  keys that are not common, and the elements of those that are arrays.
\<close>

definition nil_free_child :: "'v node \<Rightarrow> bool" where
  "nil_free_child c =
     (case c of NilNode \<Rightarrow> False | Array arr \<Rightarrow> list_all (\<lambda>n. n \<noteq> NilNode) arr | _ \<Rightarrow> True)"

definition nil_free_children :: "('v, 'p) sdk \<Rightarrow> 'v node \<Rightarrow> bool" where
  "nil_free_children S n =
     (case n of
        Object node \<Rightarrow>
          list_all (\<lambda>key. isCommonProp key \<or>
                      (case map_of node key of None \<Rightarrow> True | Some c \<Rightarrow> nil_free_child c))
            (Keys S node)
      | _ \<Rightarrow> True)"

subsection \<open>Test doubles\<close>

text \<open>
  Concrete collaborators on which the functions are evaluated: an SDK over string
  scalars whose accessors read the reserved keys, helpers that decode every non-null
  value to a given node array and encode an array as its length, a parser and an
  XPath evaluator given as arguments, a cache kept as an association list, and a hash
  that adds up the lengths of what is written.
\<close>

definition stub_sdk :: "(string, string) sdk" where
  "stub_sdk =
     \<lparr>Keys = map fst,
      TypeOf = (\<lambda>node. case map_of node KeyType of Some (Value t) \<Rightarrow> t | _ \<Rightarrow> []),
      TokenOf = (\<lambda>node. case map_of node KeyToken of Some (Value t) \<Rightarrow> t | _ \<Rightarrow> []),
      RolesOf = (\<lambda>node. case map_of node KeyRoles of Some r \<Rightarrow> [1, 2] | None \<Rightarrow> []),
      role_String = (\<lambda>r. if r = 1 then ''Expression'' else ''Identifier''),
      PositionsOf = (\<lambda>node. case map_of node KeyPos of Some (Value p) \<Rightarrow> Some p | _ \<Rightarrow> None),
      json_Marshal = Inr,
      Text_Convert = (\<lambda>v. Inr (SqlText v)),
      AllImportPaths = (\<lambda>n. Returns [])\<rparr>"

definition stub_helpers ::
  "string node list \<Rightarrow> (string node \<Rightarrow> string \<Rightarrow> (error + string node list) go) \<Rightarrow> string helpers" where
  "stub_helpers ns xp =
     \<lparr>getNodes = (\<lambda>v. case v of SqlNull \<Rightarrow> Returns (Inr None) | _ \<Rightarrow> Returns (Inr (Some ns))),
      marshalNodes = (\<lambda>arr. Returns (SqlBlob [word_of_nat (length arr)], None)),
      applyXpath = xp\<rparr>"

definition stub_env ::
  "(event list \<Rightarrow> bytes \<Rightarrow> string \<Rightarrow> string \<Rightarrow> mode \<Rightarrow> (error + string node) go)
     \<Rightarrow> (string, (64 word \<times> string node) list) env" where
  "stub_env parser =
     \<lparr>ParseMode = (\<lambda>m. if m = ''semantic'' then Inr ModeSemantic
                       else if m = ''annotated'' then Inr ModeAnnotated
                       else if m = ''native'' then Inr ModeNative
                       else Inl (Errorf ''unknown mode'')),
      mode_String = (\<lambda>m. case m of ModeSemantic \<Rightarrow> ''semantic''
                          | ModeAnnotated \<Rightarrow> ''annotated'' | ModeNative \<Rightarrow> ''native''),
      Blob_Convert = (\<lambda>v. case v of SqlBlob b \<Rightarrow> Inr b | _ \<Rightarrow> Inl (Errorf ''not a blob'')),
      unicode_ToLower = (\<lambda>s. s),
      NewLRUCache = (\<lambda>n. []),
      cache_Get = (\<lambda>c key. (map_of c key, c)),
      cache_Put = (\<lambda>c key node. (None, (key, node) # c)),
      getUASTFromBblfsh = parser\<rparr>"

definition stub_hash :: "(64 word) hash64" where
  "stub_hash =
     \<lparr>hash_Initial = 0,
      hash_Write = (\<lambda>h e. Inr (h + word_of_nat (length e))),
      hash_Sum64 = (\<lambda>h. h)\<rparr>"

definition stub_args :: "string \<Rightarrow> bytes \<Rightarrow> string \<Rightarrow> string \<Rightarrow> args" where
  "stub_args m blob lang xpath =
     \<lparr>a_Mode = Returns (Inr m), a_Blob = Returns (Inr (SqlBlob blob)),
      a_Lang = Returns (Inr lang), a_XPath = Returns (Inr xpath)\<rparr>"

text \<open>The state of a process that has evaluated nothing yet.\<close>

definition fresh :: "((64 word \<times> string node) list, 64 word) ustate" where
  "fresh = \<lparr>uastCache = None, u_h = 0, events = []\<rparr>"

definition stub_config :: "int \<Rightarrow> config" where
  "stub_config maxBlob = \<lparr>uastCacheSize = 10000, uastMaxBlobSize = maxBlob\<rparr>"

subsection \<open>The cache across an evaluation\<close>

text \<open>
  How the variable \<open>uastCache\<close> and the creations recorded in the events may differ
  between a state and a later one: a state without a cache is followed by one
  without a cache and no creation, or by one with a cache and one creation; a state
  with a cache is followed by one with a cache and no creation.
\<close>

definition cache_step :: "config \<Rightarrow> ('c, 'h) ustate \<Rightarrow> ('c, 'h) ustate \<Rightarrow> bool" where
  "cache_step cfg s s' \<longleftrightarrow>
     (if uastCache s = None then
        (uastCache s' = None \<and> filter is_CacheNew (events s') = filter is_CacheNew (events s))
        \<or> (uastCache s' \<noteq> None
            \<and> filter is_CacheNew (events s')
                = filter is_CacheNew (events s) @ [CacheNew (uint_of_int (uastCacheSize cfg))])
      else uastCache s' \<noteq> None
           \<and> filter is_CacheNew (events s') = filter is_CacheNew (events s))"

section \<open>Properties\<close>

subsection \<open>Shared lemmas\<close>

lemma isCommonProp_keys:
  "isCommonProp KeyType" "isCommonProp KeyToken" "isCommonProp KeyRoles" "isCommonProp KeyPos"
  by (simp_all add: isCommonProp_def)

lemma keys_distinct:
  "KeyToken \<noteq> KeyType" "KeyRoles \<noteq> KeyType" "KeyRoles \<noteq> KeyToken"
  "KeyPos \<noteq> KeyType" "KeyPos \<noteq> KeyToken" "KeyPos \<noteq> KeyRoles"
  by (simp_all add: KeyType_def KeyToken_def KeyRoles_def KeyPos_def)

lemma isCommonProp_literal:
  "isCommonProp key \<longleftrightarrow> key = ''@type'' \<or> key = ''@token'' \<or> key = ''@role'' \<or> key = ''@pos''"
  by (simp add: isCommonProp_def KeyType_def KeyToken_def KeyRoles_def KeyPos_def)

lemma recover_Returns: "\<exists>v. recover prefix body = Returns v"
  by (cases body) (simp_all add: recover_def)

subsection \<open>Property extraction\<close>

lemma extract_KeyType:
  "extractProperties S (Object node) KeyType =
     Returns (if TypeOf S node = [] then [] else [SqlText (TypeOf S node)])"
  by (simp add: extractProperties_def isCommonProp_keys extractCommonProp_def Let_def)

lemma extract_KeyToken:
  "extractProperties S (Object node) KeyToken =
     Returns (if TokenOf S node = [] then [] else [SqlText (TokenOf S node)])"
  by (simp add: extractProperties_def isCommonProp_keys extractCommonProp_def Let_def keys_distinct)

lemma extract_KeyRoles:
  "extractProperties S (Object node) KeyRoles =
     Returns (map (\<lambda>r. SqlText (role_String S r)) (RolesOf S node))"
  by (simp add: extractProperties_def isCommonProp_keys extractCommonProp_def Let_def keys_distinct)

lemma extract_KeyPos:
  "extractProperties S (Object node) KeyPos =
     Returns (case PositionsOf S node of
                None \<Rightarrow> []
              | Some p \<Rightarrow> (case json_Marshal S p of
                             Inl err \<Rightarrow> []
                           | Inr data \<Rightarrow> if data = [] then [] else [SqlText data]))"
  by (simp add: extractProperties_def isCommonProp_keys extractCommonProp_def Let_def keys_distinct
      posToString_def split: option.splits sum.splits)

lemma extract_no_value:
  assumes "\<not> isCommonProp key"
    and "map_of node key = None \<or> map_of node key = Some NilNode
           \<or> (\<exists>kvs. map_of node key = Some (Object kvs))"
  shows "extractProperties S (Object node) key = Returns []"
  using assms by (auto simp add: extractProperties_def extractAnyProp_def)

lemma UASTExtract_Eval_single:
  assumes "getNodes H left = Returns (Inr (Some [n]))" and "key \<noteq> []"
  shows "UASTExtract_Eval S H (Returns (Inr left)) (Returns (Inr key)) =
           (case extractProperties S n key of
              Panics r \<Rightarrow> Returns (SqlNull, Some (Errorf (''uast: unknown error: '' @ r)))
            | Returns props \<Rightarrow> Returns (SqlArray props, None))"
  using assms
  by (simp add: UASTExtract_Eval_def UASTExtract_body_def recover_def split: go.splits)

lemma UASTExtract_Eval_empty_key:
  assumes "getNodes H left = Returns (Inr (Some ns))"
  shows "UASTExtract_Eval S H (Returns (Inr left)) (Returns (Inr [])) = Returns (SqlNull, None)"
  using assms by (simp add: UASTExtract_Eval_def UASTExtract_body_def recover_def)

text \<open>
  C6, as the claim states it, fails: for an object node without the key, \<open>uast_extract\<close>
  returns the empty array that \<open>Eval\<close> starts from, not null.
\<close>

theorem uast_extract_absent_key_not_null:
  "UASTExtract_Eval stub_sdk
     (stub_helpers [Object [(''a'', Value ''x'')]] (\<lambda>n q. Returns (Inr [])))
     (Returns (Inr (SqlBlob [1]))) (Returns (Inr ''b''))
   = Returns (SqlArray [], None)
   \<and> UASTExtract_Eval stub_sdk
     (stub_helpers [Object [(''a'', Value ''x'')]] (\<lambda>n q. Returns (Inr [])))
     (Returns (Inr (SqlBlob [1]))) (Returns (Inr ''b''))
   \<noteq> Returns (SqlNull, None)"
  by (simp add: UASTExtract_Eval_def UASTExtract_body_def recover_def stub_helpers_def
      extractProperties_def isCommonProp_literal extractAnyProp_def)

text \<open>
  C6 (amended): for every object node, \<open>uast_extract\<close> yields for \<open>@type\<close> and \<open>@token\<close> the
  accessor's string, or nothing when it is empty; for \<open>@role\<close> the names of the roles in
  order; for \<open>@pos\<close> the JSON encoding of the positions, or nothing when there are none
  (or the encoding is empty or fails). A key that is not common and is absent, or
  maps to nil or to an object, yields no element and no error: on that node alone the
  result of \<open>uast_extract\<close> is the empty array. The result is null when the key is the
  empty string.
\<close>

theorem uast_extract_properties:
  "extractProperties S (Object node) KeyType =
     Returns (if TypeOf S node = [] then [] else [SqlText (TypeOf S node)])
   \<and> extractProperties S (Object node) KeyToken =
     Returns (if TokenOf S node = [] then [] else [SqlText (TokenOf S node)])
   \<and> extractProperties S (Object node) KeyRoles =
     Returns (map (\<lambda>r. SqlText (role_String S r)) (RolesOf S node))
   \<and> extractProperties S (Object node) KeyPos =
     Returns (case PositionsOf S node of
                None \<Rightarrow> []
              | Some p \<Rightarrow> (case json_Marshal S p of
                             Inl err \<Rightarrow> []
                           | Inr data \<Rightarrow> if data = [] then [] else [SqlText data]))
   \<and> (\<not> isCommonProp key \<and>
        (map_of node key = None \<or> map_of node key = Some NilNode
           \<or> (\<exists>kvs. map_of node key = Some (Object kvs))) \<longrightarrow>
        extractProperties S (Object node) key = Returns [])
   \<and> (getNodes H left = Returns (Inr (Some [Object node])) \<longrightarrow>
        UASTExtract_Eval S H (Returns (Inr left)) (Returns (Inr [])) = Returns (SqlNull, None)
        \<and> (key \<noteq> [] \<longrightarrow>
             UASTExtract_Eval S H (Returns (Inr left)) (Returns (Inr key)) =
               (case extractProperties S (Object node) key of
                  Panics r \<Rightarrow> Returns (SqlNull, Some (Errorf (''uast: unknown error: '' @ r)))
                | Returns props \<Rightarrow> Returns (SqlArray props, None))))"
  using extract_KeyType [of S node] extract_KeyToken [of S node] extract_KeyRoles [of S node]
    extract_KeyPos [of S node] extract_no_value [of key node S]
    UASTExtract_Eval_single [of H left "Object node" key S]
    UASTExtract_Eval_empty_key [of H left "[Object node]" S]
  by blast

theorem uast_extract_properties_witness:
  "extractProperties stub_sdk
     (Object [(''@type'', Value ''Identifier''), (''@token'', Value ''x''), (''@role'', Array []),
              (''body'', Object [])]) KeyType = Returns [SqlText ''Identifier'']
   \<and> extractProperties stub_sdk
     (Object [(''@type'', Value ''Identifier''), (''@token'', Value ''x''), (''@role'', Array []),
              (''body'', Object [])]) KeyToken = Returns [SqlText ''x'']
   \<and> extractProperties stub_sdk
     (Object [(''@type'', Value ''Identifier''), (''@token'', Value ''x''), (''@role'', Array []),
              (''body'', Object [])]) KeyRoles = Returns [SqlText ''Expression'', SqlText ''Identifier'']
   \<and> extractProperties stub_sdk
     (Object [(''@type'', Value ''Identifier''), (''@token'', Value ''x''), (''@role'', Array []),
              (''body'', Object [])]) KeyPos = Returns []
   \<and> extractProperties stub_sdk
     (Object [(''@type'', Value ''Identifier''), (''@token'', Value ''x''), (''@role'', Array []),
              (''body'', Object [])]) ''body'' = Returns []
   \<and> UASTExtract_Eval stub_sdk
     (stub_helpers [Object [(''@type'', Value ''Identifier''), (''@token'', Value ''x''),
                            (''@role'', Array []), (''body'', Object [])]] (\<lambda>n q. Returns (Inr [])))
     (Returns (Inr (SqlBlob [1]))) (Returns (Inr [])) = Returns (SqlNull, None)
   \<and> UASTExtract_Eval stub_sdk
     (stub_helpers [Object [(''@type'', Value ''Identifier''), (''@token'', Value ''x''),
                            (''@role'', Array []), (''body'', Object [])]] (\<lambda>n q. Returns (Inr [])))
     (Returns (Inr (SqlBlob [1]))) (Returns (Inr ''body'')) = Returns (SqlArray [], None)"
  using uast_extract_properties
    [of stub_sdk
        "[(''@type'', Value ''Identifier''), (''@token'', Value ''x''), (''@role'', Array []),
          (''body'', Object [])]"
        "''body''"
        "stub_helpers [Object [(''@type'', Value ''Identifier''), (''@token'', Value ''x''),
                               (''@role'', Array []), (''body'', Object [])]] (\<lambda>n q. Returns (Inr []))"
        "SqlBlob [1]"]
  by (simp add: stub_sdk_def stub_helpers_def isCommonProp_literal
      KeyType_def KeyToken_def KeyRoles_def KeyPos_def)

subsection \<open>Children\<close>

lemma getChildren_elems_spec:
  "list_all (\<lambda>n. n \<noteq> NilNode) arr \<Longrightarrow>
   getChildren_elems arr children = Returns (children @ filter is_Object arr)"
proof (induction arr arbitrary: children)
  case Nil
  then show ?case by simp
next
  case (Cons n arr)
  then show ?case by (cases n) simp_all
qed

lemma getChildren_keys_spec:
  "list_all (\<lambda>key. isCommonProp key \<or>
        (case map_of node key of None \<Rightarrow> True | Some c \<Rightarrow> nil_free_child c)) keys \<Longrightarrow>
   getChildren_keys node keys children =
     Returns (children @ concat (map (children_of_key node) (filter (\<lambda>key. \<not> isCommonProp key) keys)))"
proof (induction keys arbitrary: children)
  case Nil
  then show ?case by simp
next
  case (Cons key keys)
  show ?case
  proof (cases "isCommonProp key")
    case True
    with Cons show ?thesis by simp
  next
    case notCommon: False
    show ?thesis
    proof (cases "map_of node key")
      case None
      with Cons notCommon show ?thesis by (simp add: children_of_key_def)
    next
      case (Some c)
      with Cons notCommon show ?thesis
        by (cases c) (simp_all add: children_of_key_def nil_free_child_def getChildren_elems_spec)
    qed
  qed
qed

lemma getChildren_spec:
  "nil_free_children S (Object node) \<Longrightarrow>
   getChildren S node = Returns (children_spec S (Object node))"
  by (simp add: getChildren_def nil_free_children_def children_spec_def getChildren_keys_spec)

lemma flattenChildren_loop_spec:
  "list_all (nil_free_children S) arr \<Longrightarrow>
   flattenChildren_loop S arr children = Returns (children @ flatten_spec S arr)"
proof (induction arr arbitrary: children)
  case Nil
  then show ?case by (simp add: flatten_spec_def)
next
  case (Cons n arr)
  then show ?case
    by (cases n) (simp_all add: flatten_spec_def getChildren_spec, simp_all add: children_spec_def)
qed

text \<open>
  On nodes none of whose inspected children is nil, \<open>flattenChildren\<close> computes the
  children as the specification describes them, in its order.
\<close>

lemma flattenChildren_nil_free:
  "list_all (nil_free_children S) arr \<Longrightarrow> flattenChildren S arr = Returns (flatten_spec S arr)"
  by (simp add: flattenChildren_def flattenChildren_loop_spec)

text \<open>
  C7: the claim has every child that is not an object dropped. On a node with a nil
  child (a JSON null), or with a nil element in an array-valued child, \<open>getChildren\<close>
  calls \<open>Kind\<close> on the nil interface value and panics; \<open>uast_children\<close> then
  returns the recovered error instead of the children \<open>[A]\<close>.
\<close>

theorem uast_children_nil_child:
  "children_spec stub_sdk
     (Object [(''@type'', Value ''File''), (''body'', Array [Object [(''@type'', Value ''A'')]]),
              (''doc'', NilNode)])
   = [Object [(''@type'', Value ''A'')]]
   \<and> getChildren stub_sdk
     [(''@type'', Value ''File''), (''body'', Array [Object [(''@type'', Value ''A'')]]),
      (''doc'', NilNode)]
   = Panics nil_deref
   \<and> UASTChildren_Eval stub_sdk
     (stub_helpers
        [Object [(''@type'', Value ''File''), (''body'', Array [Object [(''@type'', Value ''A'')]]),
                 (''doc'', NilNode)]] (\<lambda>n q. Returns (Inr [])))
     (Returns (Inr (SqlBlob [1])))
   = Returns (SqlNull, Some (Errorf (''uast: unknown error: '' @ nil_deref)))
   \<and> children_spec stub_sdk
     (Object [(''body'', Array [Object [(''@type'', Value ''A'')], NilNode])])
   = [Object [(''@type'', Value ''A'')]]
   \<and> getChildren stub_sdk [(''body'', Array [Object [(''@type'', Value ''A'')], NilNode])]
   = Panics nil_deref"
  by (simp add: UASTChildren_Eval_def UASTChildren_body_def recover_def stub_helpers_def
      stub_sdk_def flattenChildren_def getChildren_def children_spec_def children_of_key_def
      isCommonProp_literal)

subsection \<open>The recovery of panics\<close>

lemma uastFunc_Eval_Returns: "\<exists>v. fst (uastFunc_Eval E P H cfg a s) = Returns v"
  unfolding uastFunc_Eval_def split_beta Let_def fst_conv by (rule recover_Returns)

lemma UASTXPath_Eval_Returns: "\<exists>v. UASTXPath_Eval H eLeft eRight = Returns v"
  unfolding UASTXPath_Eval_def by (rule recover_Returns)

lemma UASTExtract_Eval_Returns: "\<exists>v. UASTExtract_Eval S H eLeft eRight = Returns v"
  unfolding UASTExtract_Eval_def by (rule recover_Returns)

lemma UASTChildren_Eval_Returns: "\<exists>v. UASTChildren_Eval S H eChild = Returns v"
  unfolding UASTChildren_Eval_def by (rule recover_Returns)

text \<open>
  C5: \<open>uast\<close>, \<open>uast_mode\<close>, \<open>uast_xpath\<close>, \<open>uast_extract\<close> and \<open>uast_children\<close> run under a
  deferred \<open>recover\<close> and always return (the four lemmas above). \<open>UASTImports.Eval\<close>
  has none: a panic of its child expression leaves \<open>uast_imports\<close> as a panic, where
  \<open>uast_children\<close> on the same child returns an error; so does a panic of
  \<open>uast.AllImportPaths\<close> on a decoded node.
\<close>

theorem uast_imports_panic_escapes:
  "UASTImports_Eval S H (Panics r) = Panics r
   \<and> UASTChildren_Eval S H (Panics r) = Returns (SqlNull, Some (Errorf (''uast: unknown error: '' @ r)))
   \<and> UASTImports_Eval (stub_sdk\<lparr>AllImportPaths := (\<lambda>n. Panics ''unexpected node'')\<rparr>)
        (stub_helpers [Object []] (\<lambda>n q. Returns (Inr []))) (Returns (Inr (SqlBlob [1])))
      = Panics ''unexpected node''"
  by (simp add: UASTImports_Eval_def UASTChildren_Eval_def UASTChildren_body_def recover_def
      stub_helpers_def stub_sdk_def)

subsection \<open>Resolution, soft failures and the cache\<close>

lemma computeKey_any_state:
  "uastFunc_computeKey P h1 mode lang blob = uastFunc_computeKey P h2 mode lang blob"
  by (simp add: uastFunc_computeKey_def computeKey_def)

lemma getUAST_marshal_state:
  "\<exists>rest. events (snd (getUAST_marshal H lang xpath miss arr s)) = events s @ rest
      \<and> filter is_ParseCall rest = [] \<and> filter is_CacheNew rest = []
      \<and> uastCache (snd (getUAST_marshal H lang xpath miss arr s)) = uastCache s
      \<and> u_h (snd (getUAST_marshal H lang xpath miss arr s)) = u_h s"
  by (auto simp add: getUAST_marshal_def split: go.splits option.splits prod.splits)

lemma getUAST_filter_state:
  "\<exists>rest. events (snd (getUAST_filter H lang xpath miss node s)) = events s @ rest
      \<and> filter is_ParseCall rest = [] \<and> filter is_CacheNew rest = []
      \<and> uastCache (snd (getUAST_filter H lang xpath miss node s)) = uastCache s
      \<and> u_h (snd (getUAST_filter H lang xpath miss node s)) = u_h s"
  using getUAST_marshal_state[of H lang xpath miss _ s]
  by (auto simp add: getUAST_filter_def split: go.splits sum.splits)

lemma getUAST_resolved:
  "getUAST_resolve E P cfg blob lang xpath mode s = (Resolved node miss, s') \<Longrightarrow>
   getUAST E P H cfg blob lang xpath mode s = getUAST_filter H lang xpath miss node s'"
  by (simp add: getUAST_def)

lemma getUAST_resolve_miss:
  assumes "uastFunc_computeKey P (u_h s) (mode_String E mode) lang blob = (Inr key, h1)"
    and "getUASTCache E cfg (s\<lparr>u_h := h1\<rparr>) = (c, s2)"
    and "cache_Get E c key = (None, c1)"
  shows "\<exists>r s'. getUAST_resolve E P cfg blob lang xpath mode s = (r, s')
     \<and> (\<exists>rest. events s' = events s2 @ ParseCall blob lang xpath mode # rest \<and> filter is_ParseCall rest = [])"
  using assms
  by (auto simp add: getUAST_resolve_def Let_def split: go.splits sum.splits option.splits prod.splits)

lemma getUAST_resolve_soft:
  assumes "uastFunc_computeKey P (u_h s) (mode_String E mode) lang blob = (Inr key, h1)"
    and "getUASTCache E cfg (s\<lparr>u_h := h1\<rparr>) = (c, s2)"
    and "cache_Get E c key = (None, c1)"
    and "getUASTFromBblfsh E (events s2) blob lang xpath mode = Returns (Inl err)"
    and "is_soft_failure err"
  shows "getUAST_resolve E P cfg blob lang xpath mode s =
     (Done (Returns (SqlNull, None)),
      s2\<lparr>uastCache := Some c1, events := events s2 @ [ParseCall blob lang xpath mode]\<rparr>)"
  using assms
  by (simp add: getUAST_resolve_def Let_def)


lemma getUAST_miss_parses:
  assumes "uastFunc_computeKey P (u_h s) (mode_String E mode) lang blob = (Inr key, h1)"
    and "getUASTCache E cfg (s\<lparr>u_h := h1\<rparr>) = (c, s2)"
    and "cache_Get E c key = (None, c1)"
  shows "filter is_ParseCall (events (snd (getUAST E P H cfg blob lang xpath mode s)))
       = filter is_ParseCall (events s2) @ [ParseCall blob lang xpath mode]"
proof -
  from getUAST_resolve_miss[OF assms, of xpath]
  obtain r s' rest where r: "getUAST_resolve E P cfg blob lang xpath mode s = (r, s')"
    and ev: "events s' = events s2 @ ParseCall blob lang xpath mode # rest"
    and np: "filter is_ParseCall rest = []"
    by blast
  show ?thesis
  proof (cases r)
    case (Done x)
    with r ev np show ?thesis by (simp add: getUAST_def)
  next
    case (Resolved node miss)
    from getUAST_filter_state[of H lang xpath miss node s']
    obtain rest' where "events (snd (getUAST_filter H lang xpath miss node s')) = events s' @ rest'"
      and "filter is_ParseCall rest' = []" by blast
    with Resolved r ev np show ?thesis by (simp add: getUAST_def)
  qed
qed

lemma getUASTCache_events:
  "filter is_ParseCall (events (snd (getUASTCache E cfg s))) = filter is_ParseCall (events s)"
  by (simp add: getUASTCache_def Let_def split: option.splits)

text \<open>
  C2: when the key is computed, the cache misses and the parser reports a soft failure
  (\<open>ErrParseBlob\<close> or a syntax error), \<open>getUAST\<close> returns null without error, the
  cache is left as \<open>Get\<close> left it and no store is recorded; and, on a cache whose
  misses stay misses while nothing is stored, resolving the same content, language and
  mode again sends the same request to the parser a second time.
\<close>

theorem soft_failure_not_cached:
  assumes key: "uastFunc_computeKey P (u_h s) (mode_String E mode) lang blob = (Inr key, h1)"
    and cache: "getUASTCache E cfg (s\<lparr>u_h := h1\<rparr>) = (c, s2)"
    and miss: "cache_Get E c key = (None, c1)"
    and soft: "getUASTFromBblfsh E (events s2) blob lang xpath mode = Returns (Inl err)"
      "is_soft_failure err"
    and stable: "\<forall>c k c'. cache_Get E c k = (None, c') \<longrightarrow> fst (cache_Get E c' k) = None"
  shows "getUAST E P H cfg blob lang xpath mode s =
           (Returns (SqlNull, None),
            s2\<lparr>uastCache := Some c1, events := events s2 @ [ParseCall blob lang xpath mode]\<rparr>)
         \<and> filter is_CachePut (events s2 @ [ParseCall blob lang xpath mode]) = filter is_CachePut (events s)
         \<and> filter is_ParseCall
             (events (snd (getUAST E P H cfg blob lang xpath mode
                (s2\<lparr>uastCache := Some c1, events := events s2 @ [ParseCall blob lang xpath mode]\<rparr>))))
           = filter is_ParseCall (events s)
               @ [ParseCall blob lang xpath mode, ParseCall blob lang xpath mode]"
proof -
  let ?s' = "s2\<lparr>uastCache := Some c1, events := events s2 @ [ParseCall blob lang xpath mode]\<rparr>"
  have first: "getUAST E P H cfg blob lang xpath mode s = (Returns (SqlNull, None), ?s')"
    using getUAST_resolve_soft[OF key cache miss soft] by (simp add: getUAST_def)
  have s2: "u_h s2 = h1" "events s2 = events s \<or> (\<exists>n. events s2 = events s @ [CacheNew n])"
    using cache by (auto simp add: getUASTCache_def Let_def split: option.splits)
  have noput: "filter is_CachePut (events s2 @ [ParseCall blob lang xpath mode]) = filter is_CachePut (events s)"
    using s2(2) by auto
  have noparse: "filter is_ParseCall (events s2) = filter is_ParseCall (events s)"
    using s2(2) by auto
  have key': "uastFunc_computeKey P (u_h ?s') (mode_String E mode) lang blob = (Inr key, h1)"
    using key s2(1) by (simp add: uastFunc_computeKey_def computeKey_def split: prod.splits option.splits)
  have cache': "getUASTCache E cfg (?s'\<lparr>u_h := h1\<rparr>) = (c1, ?s')"
    using s2(1) by (simp add: getUASTCache_def)
  obtain c2 where miss': "cache_Get E c1 key = (None, c2)"
    using stable miss by (metis prod.collapse)
  show ?thesis
    using first noput getUAST_miss_parses[OF key' cache' miss', of H xpath] noparse by simp
qed

lemma stub_key:
  "uastFunc_computeKey stub_hash h ''semantic'' ''go'' [1, 2] = (Inr 12, 12)"
  by (simp add: uastFunc_computeKey_def computeKey_def stub_hash_def bytes_of_def)

lemma uint_of_int_10000: "uint_of_int 10000 = 10000"
  by (simp add: uint_of_int_def)

theorem soft_failure_not_cached_witness:
  "getUAST (stub_env (\<lambda>evs blob lang xpath mode. Returns (Inl (ErrSyntax ''syntax error''))))
      stub_hash (stub_helpers [] (\<lambda>n q. Returns (Inr []))) (stub_config 5242880)
      [1, 2] ''go'' [] ModeSemantic fresh
   = (Returns (SqlNull, None),
      \<lparr>uastCache = Some [], u_h = 12,
       events = [CacheNew 10000, ParseCall [1, 2] ''go'' [] ModeSemantic]\<rparr>)
   \<and> filter is_ParseCall
       (events (snd (getUAST
          (stub_env (\<lambda>evs blob lang xpath mode. Returns (Inl (ErrSyntax ''syntax error''))))
          stub_hash (stub_helpers [] (\<lambda>n q. Returns (Inr []))) (stub_config 5242880)
          [1, 2] ''go'' [] ModeSemantic
          \<lparr>uastCache = Some [], u_h = 12,
           events = [CacheNew 10000, ParseCall [1, 2] ''go'' [] ModeSemantic]\<rparr>)))
     = [ParseCall [1, 2] ''go'' [] ModeSemantic, ParseCall [1, 2] ''go'' [] ModeSemantic]"
proof -
  let ?E = "stub_env (\<lambda>evs blob lang xpath mode. Returns (Inl (ErrSyntax ''syntax error'')))"
  let ?s2 = "\<lparr>uastCache = Some [], u_h = 12, events = [CacheNew 10000]\<rparr>
               :: ((64 word \<times> string node) list, 64 word) ustate"
  have key: "uastFunc_computeKey stub_hash (u_h fresh) (mode_String ?E ModeSemantic) ''go'' [1, 2]
               = (Inr 12, 12)"
    by (simp add: stub_env_def stub_key)
  have cache: "getUASTCache ?E (stub_config 5242880) (fresh\<lparr>u_h := 12\<rparr>) = ([], ?s2)"
    by (simp add: getUASTCache_def fresh_def stub_config_def stub_env_def uint_of_int_10000)
  have miss: "cache_Get ?E [] 12 = (None, [])"
    by (simp add: stub_env_def)
  have soft: "getUASTFromBblfsh ?E (events ?s2) [1, 2] ''go'' [] ModeSemantic
                = Returns (Inl (ErrSyntax ''syntax error''))"
    by (simp add: stub_env_def)
  have sf: "is_soft_failure (ErrSyntax ''syntax error'')" by simp
  have stable: "\<forall>c k c'. cache_Get ?E c k = (None, c') \<longrightarrow> fst (cache_Get ?E c' k) = None"
    by (simp add: stub_env_def)
  show ?thesis
    using soft_failure_not_cached [OF key cache miss soft sf stable,
        of "stub_helpers [] (\<lambda>n q. Returns (Inr []))"]
    by (simp add: fresh_def)
qed

subsection \<open>The path-query filter\<close>

lemma UASTXPath_loop_error:
  assumes "list_all (\<lambda>m. \<exists>r. applyXpath H m xpath = Returns (Inr r)) pre"
    and "applyXpath H n xpath = Returns (Inl err)"
  shows "UASTXPath_loop H xpath (pre @ n # post) filtered = Returns (Inl err)"
  using assms
proof (induction pre arbitrary: filtered)
  case Nil
  then show ?case by simp
next
  case (Cons m pre)
  then show ?case by auto
qed

lemma getUAST_filter_error:
  assumes "xpath \<noteq> []" and "applyXpath H node xpath = Returns (Inl err)"
  shows "getUAST_filter H lang xpath miss node s =
     (Returns (SqlNull, None),
      s\<lparr>events := events s @ [LogError err (''unable to filter node using xpath: '' @ xpath)]\<rparr>)"
  using assms by (simp add: getUAST_filter_def)

lemma UASTXPath_Eval_error:
  assumes "getNodes H left = Returns (Inr (Some (pre @ n # post)))" and "xpath \<noteq> []"
    and "list_all (\<lambda>m. \<exists>r. applyXpath H m xpath = Returns (Inr r)) pre"
    and "applyXpath H n xpath = Returns (Inl err)"
  shows "UASTXPath_Eval H (Returns (Inr left)) (Returns (Inr xpath)) = Returns (SqlNull, Some err)"
  using assms(1,2) UASTXPath_loop_error[OF assms(3,4), of post "[]"]
  by (simp add: UASTXPath_Eval_def UASTXPath_body_def recover_def)

text \<open>
  C1, as the claim states it, fails for \<open>uast_xpath\<close>: the error of the evaluator is
  returned to the caller.
\<close>

theorem uast_xpath_propagates_error:
  "UASTXPath_Eval (stub_helpers [Object []] (\<lambda>n q. Returns (Inl (Errorf ''invalid expression''))))
     (Returns (Inr (SqlBlob [1]))) (Returns (Inr ''//*[''))
   = Returns (SqlNull, Some (Errorf ''invalid expression''))"
  by (simp add: UASTXPath_Eval_def UASTXPath_body_def recover_def stub_helpers_def)

text \<open>
  C1 (amended): in \<open>uast\<close> and \<open>uast_mode\<close>, when the tree is resolved and the evaluator
  returns an error for the node and the query, \<open>getUAST\<close> logs the error and returns
  null without error. In \<open>uast_xpath\<close>, the error the evaluator returns on the first
  node it fails on is returned to the caller.
\<close>

theorem xpath_error_handling:
  "(getUAST_resolve E P cfg blob lang xpath mode s = (Resolved node miss, s')
      \<and> xpath \<noteq> [] \<and> applyXpath H node xpath = Returns (Inl err) \<longrightarrow>
    getUAST E P H cfg blob lang xpath mode s =
      (Returns (SqlNull, None),
       s'\<lparr>events := events s' @ [LogError err (''unable to filter node using xpath: '' @ xpath)]\<rparr>))
   \<and> (getNodes H left = Returns (Inr (Some (pre @ n # post))) \<and> xpath \<noteq> []
      \<and> list_all (\<lambda>m. \<exists>r. applyXpath H m xpath = Returns (Inr r)) pre
      \<and> applyXpath H n xpath = Returns (Inl err) \<longrightarrow>
    UASTXPath_Eval H (Returns (Inr left)) (Returns (Inr xpath)) = Returns (SqlNull, Some err))"
  using getUAST_resolved [of E P cfg blob lang xpath mode s node miss s' H]
    getUAST_filter_error [of xpath H node err lang miss s']
    UASTXPath_Eval_error [of H left pre n post xpath err]
  by simp

lemma stub_resolve:
  "getUAST_resolve (stub_env (\<lambda>evs blob lang xpath mode. Returns (Inr (Object []))))
      stub_hash (stub_config 5242880) [1, 2] ''go'' xpath ModeSemantic fresh
   = (Resolved (Object []) True,
      \<lparr>uastCache = Some [(12, Object [])], u_h = 12,
       events = [CacheNew 10000, ParseCall [1, 2] ''go'' xpath ModeSemantic, CachePut 12]\<rparr>)"
  by (simp add: getUAST_resolve_def stub_key getUASTCache_def fresh_def stub_config_def
      stub_env_def uint_of_int_10000)

theorem xpath_error_handling_witness:
  "getUAST (stub_env (\<lambda>evs blob lang xpath mode. Returns (Inr (Object []))))
      stub_hash (stub_helpers [Object []] (\<lambda>n q. Returns (Inl (Errorf ''invalid expression''))))
      (stub_config 5242880) [1, 2] ''go'' ''//*['' ModeSemantic fresh
   = (Returns (SqlNull, None),
      \<lparr>uastCache = Some [(12, Object [])], u_h = 12,
       events = [CacheNew 10000, ParseCall [1, 2] ''go'' ''//*['' ModeSemantic, CachePut 12,
                 LogError (Errorf ''invalid expression'')
                   ''unable to filter node using xpath: //*['']\<rparr>)
   \<and> UASTXPath_Eval
        (stub_helpers [Object []] (\<lambda>n q. Returns (Inl (Errorf ''invalid expression''))))
        (Returns (Inr (SqlBlob [1]))) (Returns (Inr ''//*[''))
     = Returns (SqlNull, Some (Errorf ''invalid expression''))"
  using xpath_error_handling
    [of "stub_env (\<lambda>evs blob lang xpath mode. Returns (Inr (Object [])))" stub_hash
        "stub_config 5242880" "[1, 2]" "''go''" "''//*[''" ModeSemantic fresh "Object []" True
        "\<lparr>uastCache = Some [(12, Object [])], u_h = 12,
          events = [CacheNew 10000, ParseCall [1, 2] ''go'' ''//*['' ModeSemantic, CachePut 12]\<rparr>"
        "stub_helpers [Object []] (\<lambda>n q. Returns (Inl (Errorf ''invalid expression'')))"
        "Errorf ''invalid expression''" "SqlBlob [1]" "[]" "Object []" "[]"]
    stub_resolve [of "''//*[''"]
  by (simp add: stub_helpers_def)

lemma getUAST_filter_empty:
  "getUAST_filter H lang [] miss node s = getUAST_marshal H lang [] miss [node] s"
  by (simp add: getUAST_filter_def)

text \<open>
  C4, as the claim states it, fails for \<open>uast_xpath\<close>: on an empty query the result is
  null, not the encoding of the node.
\<close>

theorem uast_xpath_empty_query_null:
  "UASTXPath_Eval (stub_helpers [Object []] (\<lambda>n q. Returns (Inr [n])))
     (Returns (Inr (SqlBlob [1]))) (Returns (Inr []))
   = Returns (SqlNull, None)
   \<and> marshalNodes (stub_helpers [Object []] (\<lambda>n q. Returns (Inr [n]))) [Object []]
   = Returns (SqlBlob [1], None)"
  by (simp add: UASTXPath_Eval_def UASTXPath_body_def recover_def stub_helpers_def)

lemma UASTXPath_Eval_empty:
  "UASTXPath_Eval H eLeft (Returns (Inr [])) = Returns (SqlNull, None)"
  by (simp add: UASTXPath_Eval_def UASTXPath_body_def recover_def)

text \<open>
  C4 (amended): in \<open>uast\<close> and \<open>uast_mode\<close>, with an empty query the filter is the
  identity: the resolved node alone, as a one-element array, is what \<open>marshalNodes\<close>
  encodes, and the evaluator has no part in the result. \<open>uast_xpath\<close> returns null
  on an empty query.
\<close>

theorem empty_query:
  "(getUAST_resolve E P cfg blob lang [] mode s = (Resolved node miss, s') \<longrightarrow>
      getUAST E P H cfg blob lang [] mode s =
        (case marshalNodes H [node] of
           Panics r \<Rightarrow> (Panics r, s')
         | Returns (result, Some err) \<Rightarrow>
             (Returns (SqlNull, None),
              s'\<lparr>events := events s' @ [LogError err ''unable to marshal UAST nodes'']\<rparr>)
         | Returns (result, None) \<Rightarrow>
             (Returns (result, None),
              s'\<lparr>events := events s' @ [Observe lang [] (\<not> miss)]\<rparr>))
      \<and> getUAST E P (H\<lparr>applyXpath := xp\<rparr>) cfg blob lang [] mode s
          = getUAST E P H cfg blob lang [] mode s)
   \<and> UASTXPath_Eval H eLeft (Returns (Inr [])) = Returns (SqlNull, None)"
  using getUAST_resolved [of E P cfg blob lang "[]" mode s node miss s' H]
    getUAST_resolved [of E P cfg blob lang "[]" mode s node miss s' "H\<lparr>applyXpath := xp\<rparr>"]
    getUAST_filter_empty [of H lang miss node s']
    getUAST_filter_empty [of "H\<lparr>applyXpath := xp\<rparr>" lang miss node s']
    UASTXPath_Eval_empty [of H eLeft]
  by (simp add: getUAST_marshal_def)

theorem empty_query_witness:
  "getUAST (stub_env (\<lambda>evs blob lang xpath mode. Returns (Inr (Object []))))
      stub_hash (stub_helpers [Object []] (\<lambda>n q. Returns (Inl (Errorf ''invalid expression''))))
      (stub_config 5242880) [1, 2] ''go'' [] ModeSemantic fresh
   = (Returns (SqlBlob [1], None),
      \<lparr>uastCache = Some [(12, Object [])], u_h = 12,
       events = [CacheNew 10000, ParseCall [1, 2] ''go'' [] ModeSemantic, CachePut 12,
                 Observe ''go'' [] False]\<rparr>)
   \<and> UASTXPath_Eval
        (stub_helpers [Object []] (\<lambda>n q. Returns (Inl (Errorf ''invalid expression''))))
        (Returns (Inr (SqlBlob [1]))) (Returns (Inr []))
     = Returns (SqlNull, None)"
  using empty_query
    [of "stub_env (\<lambda>evs blob lang xpath mode. Returns (Inr (Object [])))" stub_hash
        "stub_config 5242880" "[1, 2]" "''go''" ModeSemantic fresh "Object []" True
        "\<lparr>uastCache = Some [(12, Object [])], u_h = 12,
          events = [CacheNew 10000, ParseCall [1, 2] ''go'' [] ModeSemantic, CachePut 12]\<rparr>"
        "stub_helpers [Object []] (\<lambda>n q. Returns (Inl (Errorf ''invalid expression'')))"
        "\<lambda>n q. Returns (Inr [])" "Returns (Inr (SqlBlob [1]))"]
    stub_resolve [of "[]"]
  by (simp add: stub_helpers_def)

subsection \<open>The key, the language and the size guard\<close>

text \<open>
  C8: the key computed by \<open>uastFunc.computeKey\<close> for a mode, a language and a content
  does not depend on the state the hash object \<open>u.h\<close> is in: two invocations on the same
  triple yield the same key, in particular the second of two successive ones, which
  finds the hash object as the first left it.
\<close>

theorem computeKey_deterministic:
  "uastFunc_computeKey P h1 mode lang blob = uastFunc_computeKey P h2 mode lang blob
   \<and> fst (uastFunc_computeKey P (snd (uastFunc_computeKey P h mode lang blob)) mode lang blob)
       = fst (uastFunc_computeKey P h mode lang blob)"
  using computeKey_any_state [of P h1 mode lang blob h2]
    computeKey_any_state [of P "snd (uastFunc_computeKey P h mode lang blob)" mode lang blob h]
  by simp

lemma uastFunc_Eval_body:
  "uastFunc_Eval E P H cfg a s =
     (recover ''uast: unknown error: '' (fst (uastFunc_body E P H cfg a s)),
      snd (uastFunc_body E P H cfg a s))"
  by (simp add: uastFunc_Eval_def split_beta)

lemma uastFunc_body_getUAST:
  assumes "a_Mode a = Returns (Inr m)" and "ParseMode E m = Inr mode"
    and "a_Blob a = Returns (Inr blob)" and "blob \<noteq> SqlNull"
    and "Blob_Convert E blob = Inr bytes" and "bytes \<noteq> []"
    and "\<not> (0 \<le> uastMaxBlobSize cfg \<and> uastMaxBlobSize cfg < int (length bytes))"
    and "a_Lang a = Returns (Inr lang)" and "a_XPath a = Returns (Inr xpath)"
  shows "uastFunc_body E P H cfg a s = getUAST E P H cfg bytes (ToLower E lang) xpath mode s"
  using assms by (cases blob) (auto simp add: uastFunc_body_def)

lemma uastFunc_Eval_oversize:
  assumes "a_Mode a = Returns (Inr m)" and "ParseMode E m = Inr mode"
    and "a_Blob a = Returns (Inr blob)" and "blob \<noteq> SqlNull"
    and "Blob_Convert E blob = Inr bytes"
    and "0 \<le> uastMaxBlobSize cfg" and "uastMaxBlobSize cfg < int (length bytes)"
  shows "uastFunc_Eval E P H cfg a s =
     (Returns (SqlNull, None),
      s\<lparr>events := events s @
           [LogWarn [(''max'', uastMaxBlobSize cfg), (''size'', int (length bytes))] too_big_msg,
            CtxWarn 0 too_big_msg]\<rparr>)"
proof -
  from assms(6,7) have "bytes \<noteq> []" by auto
  with assms show ?thesis
    by (cases blob) (simp_all add: uastFunc_Eval_body uastFunc_body_def recover_def)
qed

lemma uastFunc_Eval_oversize_no_parse:
  assumes "a_Blob a = Returns (Inr blob)" and "Blob_Convert E blob = Inr bytes"
    and "0 \<le> uastMaxBlobSize cfg" and "uastMaxBlobSize cfg < int (length bytes)"
  shows "filter is_ParseCall (events (snd (uastFunc_Eval E P H cfg a s))) = filter is_ParseCall (events s)
       \<and> uastCache (snd (uastFunc_Eval E P H cfg a s)) = uastCache s"
  using assms
  by (cases blob)
     (auto simp add: uastFunc_Eval_body uastFunc_body_def split: go.splits sum.splits)

lemma init_maxBlob:
  "uastMaxBlobSize (init os) =
     (case Atoi os (Getenv os uastMaxBlobSizeKey) of Inl err \<Rightarrow> 5 * 1024 * 1024 | Inr n \<Rightarrow> n)"
  by (simp add: init_def Let_def defaultUASTMaxBlobSize_def split: sum.splits)

lemma too_big_msg_literal:
  "too_big_msg = ''uast will be skipped, file is too big to send to bblfsh.'' @
     ''This can be configured using GITBASE_MAX_UAST_BLOB_SIZE environment variable''"
  by (simp add: too_big_msg_def uastMaxBlobSizeKey_def)

lemma uastFunc_Eval_lang:
  assumes "ToLower E l1 = ToLower E l2"
  shows "uastFunc_Eval E P H cfg (a\<lparr>a_Lang := Returns (Inr l1)\<rparr>) s
       = uastFunc_Eval E P H cfg (a\<lparr>a_Lang := Returns (Inr l2)\<rparr>) s"
  using assms
  by (cases a) (auto simp add: uastFunc_Eval_def uastFunc_body_def split: go.splits sum.splits sqlval.splits)

lemma ToLower_stub: "ToLower (stub_env p) ''Go'' = ''go''" "ToLower (stub_env p) ''GO'' = ''go''"
  by (simp_all add: ToLower_def ascii_lower_def char_of_def bit_0)


text \<open>
  C10: \<open>uastFunc.Eval\<close> uses the language only through \<open>strings.ToLower\<close>. Two
  evaluations whose language arguments have the same lower-case form (they differ only
  in letter case) are equal in result and in effects: the same key is looked up and
  stored, the same request goes to the parser. An evaluation that reaches \<open>getUAST\<close>
  passes it the lower-cased language, from which the key and the request are built.
\<close>

theorem lang_lowercased:
  "(ToLower E l1 = ToLower E l2 \<longrightarrow>
      uastFunc_Eval E P H cfg (a\<lparr>a_Lang := Returns (Inr l1)\<rparr>) s
        = uastFunc_Eval E P H cfg (a\<lparr>a_Lang := Returns (Inr l2)\<rparr>) s)
   \<and> (a_Mode a = Returns (Inr m) \<and> ParseMode E m = Inr mode
        \<and> a_Blob a = Returns (Inr blob) \<and> blob \<noteq> SqlNull
        \<and> Blob_Convert E blob = Inr bytes \<and> bytes \<noteq> []
        \<and> \<not> (0 \<le> uastMaxBlobSize cfg \<and> uastMaxBlobSize cfg < int (length bytes))
        \<and> a_Lang a = Returns (Inr lang) \<and> a_XPath a = Returns (Inr xpath) \<longrightarrow>
      uastFunc_body E P H cfg a s = getUAST E P H cfg bytes (ToLower E lang) xpath mode s)"
  using uastFunc_Eval_lang [of E l1 l2 P H cfg a s]
    uastFunc_body_getUAST [of a m E mode blob bytes cfg lang xpath P H s]
  by blast

lemma stub_env_simps:
  "ParseMode (stub_env p) ''semantic'' = Inr ModeSemantic"
  "ParseMode (stub_env p) ''bogus'' = Inl (Errorf ''unknown mode'')"
  "mode_String (stub_env p) ModeSemantic = ''semantic''"
  "Blob_Convert (stub_env p) (SqlBlob b) = Inr b"
  "getUASTFromBblfsh (stub_env p) = p"
  "cache_Get (stub_env p) c key = (map_of c key, c)"
  by (simp_all add: stub_env_def)

lemma stub_args_simps:
  "a_Mode (stub_args m b l x) = Returns (Inr m)"
  "a_Blob (stub_args m b l x) = Returns (Inr (SqlBlob b))"
  "a_Lang (stub_args m b l x) = Returns (Inr l)"
  "a_XPath (stub_args m b l x) = Returns (Inr x)"
  "(stub_args m b l x)\<lparr>a_Lang := Returns (Inr l')\<rparr> = stub_args m b l' x"
  by (simp_all add: stub_args_def)

lemma stub_config_simps:
  "uastMaxBlobSize (stub_config n) = n" "uastCacheSize (stub_config n) = 10000"
  by (simp_all add: stub_config_def)

theorem lang_lowercased_witness:
  "uastFunc_Eval (stub_env (\<lambda>evs blob lang xpath mode. Returns (Inr (Object []))))
      stub_hash (stub_helpers [] (\<lambda>n q. Returns (Inr []))) (stub_config 5242880)
      (stub_args ''semantic'' [1, 2] ''Go'' []) fresh
   = uastFunc_Eval (stub_env (\<lambda>evs blob lang xpath mode. Returns (Inr (Object []))))
      stub_hash (stub_helpers [] (\<lambda>n q. Returns (Inr []))) (stub_config 5242880)
      (stub_args ''semantic'' [1, 2] ''GO'' []) fresh
   \<and> uastFunc_body (stub_env (\<lambda>evs blob lang xpath mode. Returns (Inr (Object []))))
      stub_hash (stub_helpers [] (\<lambda>n q. Returns (Inr []))) (stub_config 5242880)
      (stub_args ''semantic'' [1, 2] ''Go'' []) fresh
   = getUAST (stub_env (\<lambda>evs blob lang xpath mode. Returns (Inr (Object []))))
      stub_hash (stub_helpers [] (\<lambda>n q. Returns (Inr []))) (stub_config 5242880)
      [1, 2] ''go'' [] ModeSemantic fresh"
  using lang_lowercased
    [of "stub_env (\<lambda>evs blob lang xpath mode. Returns (Inr (Object [])))" "''Go''" "''GO''"
        stub_hash "stub_helpers [] (\<lambda>n q. Returns (Inr []))" "stub_config 5242880"
        "stub_args ''semantic'' [1, 2] ''Go'' []" fresh "''semantic''" ModeSemantic
        "SqlBlob [1, 2]" "[1, 2]" "''Go''" "[]"]
  by (simp add: stub_env_simps stub_args_simps stub_config_simps ToLower_stub)

lemma stub_getUAST_hit:
  "getUAST (stub_env p) stub_hash (stub_helpers ns xp) (stub_config n) [1, 2] ''go'' [] ModeSemantic
      \<lparr>uastCache = Some [(12, Object [])], u_h = 0, events = []\<rparr>
   = (Returns (SqlBlob [1], None),
      \<lparr>uastCache = Some [(12, Object [])], u_h = 12, events = [Observe ''go'' [] True]\<rparr>)"
  by (simp add: getUAST_def getUAST_resolve_def stub_key getUASTCache_def
      stub_env_def getUAST_filter_def getUAST_marshal_def stub_helpers_def)

text \<open>
  C3, as the claim states it, fails: with an invalid mode (\<open>uast_mode\<close>), content over the
  maximum yields the error of \<open>ParseMode\<close>, which is evaluated first. With a negative
  maximum, empty content still yields null without reaching the parser, and content
  whose tree is cached is answered from the cache.
\<close>

theorem oversize_invalid_mode_is_error:
  "uastFunc_Eval (stub_env (\<lambda>evs blob lang xpath mode. Returns (Inr (Object [])))) stub_hash (stub_helpers [] (\<lambda>n q. Returns (Inr []))) (stub_config 1)
      (stub_args ''bogus'' [1, 2] ''go'' []) fresh
   = (Returns (SqlNull, Some (Errorf ''unknown mode'')), fresh)
   \<and> uastFunc_Eval (stub_env (\<lambda>evs blob lang xpath mode. Returns (Inr (Object [])))) stub_hash (stub_helpers [] (\<lambda>n q. Returns (Inr []))) (stub_config (- 1))
      (stub_args ''semantic'' [] ''go'' []) fresh
   = (Returns (SqlNull, None), fresh)
   \<and> uastFunc_Eval (stub_env (\<lambda>evs blob lang xpath mode. Returns (Inr (Object [])))) stub_hash (stub_helpers [] (\<lambda>n q. Returns (Inr []))) (stub_config (- 1))
      (stub_args ''semantic'' [1, 2] ''go'' [])
      \<lparr>uastCache = Some [(12, Object [])], u_h = 0, events = []\<rparr>
   = (Returns (SqlBlob [1], None),
      \<lparr>uastCache = Some [(12, Object [])], u_h = 12, events = [Observe ''go'' [] True]\<rparr>)"
proof -
  have lower: "ToLower (stub_env (\<lambda>evs blob lang xpath mode. Returns (Inr (Object [])))) ''go'' = ''go''"
    by (simp add: ToLower_def ascii_lower_def)
  have "uastFunc_body (stub_env (\<lambda>evs blob lang xpath mode. Returns (Inr (Object [])))) stub_hash (stub_helpers [] (\<lambda>n q. Returns (Inr []))) (stub_config (- 1))
      (stub_args ''semantic'' [1, 2] ''go'' [])
      \<lparr>uastCache = Some [(12, Object [])], u_h = 0, events = []\<rparr>
    = getUAST (stub_env (\<lambda>evs blob lang xpath mode. Returns (Inr (Object [])))) stub_hash (stub_helpers [] (\<lambda>n q. Returns (Inr []))) (stub_config (- 1)) [1, 2]
        (ToLower (stub_env (\<lambda>evs blob lang xpath mode. Returns (Inr (Object [])))) ''go'') [] ModeSemantic
        \<lparr>uastCache = Some [(12, Object [])], u_h = 0, events = []\<rparr>"
    by (rule uastFunc_body_getUAST [where m = "''semantic''" and blob = "SqlBlob [1, 2]"])
       (simp_all add: stub_env_simps stub_args_simps stub_config_simps)
  then show ?thesis
    by (simp add: uastFunc_Eval_body lower stub_getUAST_hit recover_def)
       (simp add: uastFunc_body_def stub_env_simps stub_args_simps)
qed


lemma uastFunc_Eval_miss_parses:
  assumes "uastFunc_body E P H cfg a s = getUAST E P H cfg bytes lang xpath mode s"
    and "uastFunc_computeKey P (u_h s) (mode_String E mode) lang bytes = (Inr key, h1)"
    and "getUASTCache E cfg (s\<lparr>u_h := h1\<rparr>) = (c, s2)"
    and "cache_Get E c key = (None, c1)"
  shows "filter is_ParseCall (events (snd (uastFunc_Eval E P H cfg a s)))
       = filter is_ParseCall (events s) @ [ParseCall bytes lang xpath mode]"
  using assms(1) getUAST_miss_parses [OF assms(2,3,4), of H xpath]
    getUASTCache_events [of E cfg "s\<lparr>u_h := h1\<rparr>"] assms(3)
  by (simp add: uastFunc_Eval_body)

text \<open>
  C3 (amended): the maximum is read by \<open>init\<close> and is 5 MB when the variable is not an
  integer. For content longer than a maximum that is not negative, the evaluation
  records no request to the parser and leaves the cache alone, whatever the other
  arguments are; when moreover the mode argument is a valid mode, it returns null
  without error and emits the warning that names \<open>GITBASE_MAX_UAST_BLOB_SIZE\<close>, in
  the log and on the SQL context. With a negative maximum the check is off: non-empty
  content of any length goes on to \<open>getUAST\<close>, which sends it to the parser when the
  cache misses.
\<close>

theorem oversize_guard:
  "uastMaxBlobSize (init os) =
     (case Atoi os (Getenv os uastMaxBlobSizeKey) of Inl err \<Rightarrow> 5 * 1024 * 1024 | Inr n \<Rightarrow> n)
   \<and> too_big_msg = ''uast will be skipped, file is too big to send to bblfsh.'' @
       ''This can be configured using GITBASE_MAX_UAST_BLOB_SIZE environment variable''
   \<and> (a_Blob a = Returns (Inr blob) \<and> Blob_Convert E blob = Inr bytes
        \<and> 0 \<le> uastMaxBlobSize cfg \<and> uastMaxBlobSize cfg < int (length bytes) \<longrightarrow>
      filter is_ParseCall (events (snd (uastFunc_Eval E P H cfg a s)))
        = filter is_ParseCall (events s)
      \<and> uastCache (snd (uastFunc_Eval E P H cfg a s)) = uastCache s
      \<and> (a_Mode a = Returns (Inr m) \<and> ParseMode E m = Inr mode \<and> blob \<noteq> SqlNull \<longrightarrow>
           uastFunc_Eval E P H cfg a s =
             (Returns (SqlNull, None),
              s\<lparr>events := events s @
                   [LogWarn [(''max'', uastMaxBlobSize cfg), (''size'', int (length bytes))]
                      too_big_msg,
                    CtxWarn 0 too_big_msg]\<rparr>)))
   \<and> (uastMaxBlobSize cfg < 0
        \<and> a_Mode a = Returns (Inr m) \<and> ParseMode E m = Inr mode
        \<and> a_Blob a = Returns (Inr blob) \<and> blob \<noteq> SqlNull
        \<and> Blob_Convert E blob = Inr bytes \<and> bytes \<noteq> []
        \<and> a_Lang a = Returns (Inr lang) \<and> a_XPath a = Returns (Inr xpath) \<longrightarrow>
      uastFunc_body E P H cfg a s = getUAST E P H cfg bytes (ToLower E lang) xpath mode s
      \<and> (uastFunc_computeKey P (u_h s) (mode_String E mode) (ToLower E lang) bytes = (Inr key, h1)
           \<and> getUASTCache E cfg (s\<lparr>u_h := h1\<rparr>) = (c, s2)
           \<and> cache_Get E c key = (None, c1) \<longrightarrow>
          filter is_ParseCall (events (snd (uastFunc_Eval E P H cfg a s)))
            = filter is_ParseCall (events s) @ [ParseCall bytes (ToLower E lang) xpath mode]))"
proof -
  have neg: "uastMaxBlobSize cfg < 0 \<Longrightarrow>
      \<not> (0 \<le> uastMaxBlobSize cfg \<and> uastMaxBlobSize cfg < int (length bytes))"
    by simp
  show ?thesis
    using init_maxBlob [of os] too_big_msg_literal
      uastFunc_Eval_oversize_no_parse [of a blob E bytes cfg P H s]
      uastFunc_Eval_oversize [of a m E mode blob bytes cfg P H s]
      uastFunc_body_getUAST [of a m E mode blob bytes cfg lang xpath P H s] neg
      uastFunc_Eval_miss_parses [of E P H cfg a s bytes "ToLower E lang" xpath mode key h1 c s2 c1]
    by blast
qed


theorem oversize_guard_witness:
  "uastMaxBlobSize (init \<lparr>Getenv = (\<lambda>k. []), Atoi = (\<lambda>s. Inl (Errorf ''invalid syntax''))\<rparr>)
     = 5242880
   \<and> uastFunc_Eval (stub_env (\<lambda>evs blob lang xpath mode. Returns (Inr (Object []))))
        stub_hash (stub_helpers [] (\<lambda>n q. Returns (Inr []))) (stub_config 1)
        (stub_args ''semantic'' [1, 2] ''go'' []) fresh
     = (Returns (SqlNull, None),
        \<lparr>uastCache = None, u_h = 0,
         events = [LogWarn [(''max'', 1), (''size'', 2)] too_big_msg, CtxWarn 0 too_big_msg]\<rparr>)
   \<and> filter is_ParseCall (events (snd
        (uastFunc_Eval (stub_env (\<lambda>evs blob lang xpath mode. Returns (Inr (Object []))))
           stub_hash (stub_helpers [] (\<lambda>n q. Returns (Inr []))) (stub_config (- 1))
           (stub_args ''semantic'' [1, 2] ''go'' []) fresh)))
     = [ParseCall [1, 2] ''go'' [] ModeSemantic]"
proof -
  let ?E = "stub_env (\<lambda>evs blob lang xpath mode. Returns (Inr (Object [])))"
  let ?H = "stub_helpers [] (\<lambda>n q. Returns (Inr []))"
  let ?a = "stub_args ''semantic'' [1, 2] ''go'' []"
  let ?os = "\<lparr>Getenv = (\<lambda>k. []), Atoi = (\<lambda>s. Inl (Errorf ''invalid syntax''))\<rparr>"
  have lower: "ToLower ?E ''go'' = ''go''"
    by (simp add: ToLower_def ascii_lower_def)
  have key: "uastFunc_computeKey stub_hash (u_h fresh) (mode_String ?E ModeSemantic)
               (ToLower ?E ''go'') [1, 2] = (Inr 12, 12)"
    by (simp add: stub_env_simps stub_key lower)
  have cache: "getUASTCache ?E (stub_config (- 1)) (fresh\<lparr>u_h := 12\<rparr>)
                 = ([], \<lparr>uastCache = Some [], u_h = 12, events = [CacheNew 10000]\<rparr>)"
    by (simp add: getUASTCache_def fresh_def stub_config_def stub_env_def uint_of_int_10000)
  have miss: "cache_Get ?E [] 12 = (None, [])"
    by (simp add: stub_env_simps)
  have big: "uastFunc_Eval ?E stub_hash ?H (stub_config 1) ?a fresh
     = (Returns (SqlNull, None),
        \<lparr>uastCache = None, u_h = 0,
         events = [LogWarn [(''max'', 1), (''size'', 2)] too_big_msg, CtxWarn 0 too_big_msg]\<rparr>)"
    using oversize_guard
      [where os = ?os and a = ?a and blob = "SqlBlob [1, 2]" and E = ?E and bytes = "[1, 2]"
         and cfg = "stub_config 1" and P = stub_hash and H = ?H and s = fresh
         and m = "''semantic''" and mode = ModeSemantic]
    by (simp add: stub_env_simps stub_args_simps stub_config_simps fresh_def)
  have neg: "filter is_ParseCall (events (snd
        (uastFunc_Eval ?E stub_hash ?H (stub_config (- 1)) ?a fresh)))
     = [ParseCall [1, 2] ''go'' [] ModeSemantic]
     \<and> uastMaxBlobSize (init ?os) = 5242880"
    using oversize_guard
      [where os = ?os and a = ?a and blob = "SqlBlob [1, 2]" and E = ?E and bytes = "[1, 2]"
         and cfg = "stub_config (- 1)" and P = stub_hash and H = ?H and s = fresh
         and m = "''semantic''" and mode = ModeSemantic and lang = "''go''" and xpath = "[]"
         and key = 12 and ?h1.0 = 12 and c = "[]"
         and ?s2.0 = "\<lparr>uastCache = Some [], u_h = 12, events = [CacheNew 10000]\<rparr>"
         and ?c1.0 = "[]"]
      key cache miss
    by (simp add: stub_env_simps stub_args_simps stub_config_simps lower, simp add: fresh_def)
  from big neg show ?thesis by simp
qed

subsection \<open>Capacity and creation of the cache\<close>

lemma cache_step_refl: "cache_step cfg s s"
  by (simp add: cache_step_def)

lemma cache_step_u_h: "cache_step cfg (s\<lparr>u_h := h\<rparr>) s' = cache_step cfg s s'"
  by (simp add: cache_step_def)

lemma cache_step_getUASTCache:
  "cache_step cfg s (snd (getUASTCache E cfg s))
   \<and> uastCache (snd (getUASTCache E cfg s)) = Some (fst (getUASTCache E cfg s))"
  by (simp add: cache_step_def getUASTCache_def Let_def split: option.splits)

lemma cache_step_more:
  assumes "cache_step cfg s s'" and "uastCache s' \<noteq> None" and "filter is_CacheNew evs = []"
  shows "cache_step cfg s (s'\<lparr>uastCache := Some c, events := events s' @ evs\<rparr>)"
    and "cache_step cfg s (s'\<lparr>events := events s' @ evs\<rparr>)"
    and "cache_step cfg s (s'\<lparr>uastCache := Some c\<rparr>)"
  using assms by (auto simp add: cache_step_def split: if_splits)

lemma cache_step_resolve:
  "cache_step cfg s (snd (getUAST_resolve E P cfg blob lang xpath mode s))"
proof (cases "uastFunc_computeKey P (u_h s) (mode_String E mode) lang blob")
  case (Pair kr h')
  show ?thesis
  proof (cases kr)
    case (Inl err)
    with Pair show ?thesis
      by (simp add: getUAST_resolve_def cache_step_def)
  next
    case (Inr key)
    obtain c s2 where c: "getUASTCache E cfg (s\<lparr>u_h := h'\<rparr>) = (c, s2)"
      by (cases "getUASTCache E cfg (s\<lparr>u_h := h'\<rparr>)")
    obtain val c' where g: "cache_Get E c key = (val, c')" by (cases "cache_Get E c key")
    from cache_step_getUASTCache [of cfg "s\<lparr>u_h := h'\<rparr>" E] c
    have st: "cache_step cfg s s2" and some: "uastCache s2 \<noteq> None"
      by (simp_all add: cache_step_u_h)
    let ?s3 = "s2\<lparr>uastCache := Some c'\<rparr>"
    have st3: "cache_step cfg s ?s3" using cache_step_more(3) [OF st some, of "[]"] by simp
    let ?s4 = "s2\<lparr>uastCache := Some c', events := events s2 @ [ParseCall blob lang xpath mode]\<rparr>"
    have st4: "cache_step cfg s ?s4"
      using cache_step_more(1) [OF st some, of "[ParseCall blob lang xpath mode]" c'] by simp
    have st5: "cache_step cfg s
       (s2\<lparr>uastCache := Some c'',
           events := events s2 @ [ParseCall blob lang xpath mode, CachePut key]\<rparr>)" for c''
      using cache_step_more(1) [OF st some, of "[ParseCall blob lang xpath mode, CachePut key]" c'']
      by simp
    show ?thesis
    proof (cases val)
      case None
      show ?thesis
      proof (cases "getUASTFromBblfsh E (events s2) blob lang xpath mode")
        case (Panics r)
        with Pair Inr c g None st4 show ?thesis by (simp add: getUAST_resolve_def Let_def)
      next
        case (Returns res)
        show ?thesis
        proof (cases res)
          case (Inl err)
          with Returns Pair Inr c g None st4 show ?thesis
            by (simp add: getUAST_resolve_def Let_def)
        next
          case (Inr node)
          obtain perr c'' where p: "cache_Put E c' key node = (perr, c'')"
            by (cases "cache_Put E c' key node")
          with Inr Returns Pair \<open>kr = Inr key\<close> c g None st5 [of c''] show ?thesis
            by (cases perr) (simp_all add: getUAST_resolve_def Let_def)
        qed
      qed
    next
      case (Some node)
      with Pair Inr c g st3 show ?thesis
        by (cases node) (simp_all add: getUAST_resolve_def Let_def)
    qed
  qed
qed


lemma cache_step_filter:
  "cache_step cfg s s' \<Longrightarrow> cache_step cfg s (snd (getUAST_filter H lang xpath miss node s'))"
proof -
  assume st: "cache_step cfg s s'"
  from getUAST_filter_state [of H lang xpath miss node s']
  obtain rest where ev: "events (snd (getUAST_filter H lang xpath miss node s')) = events s' @ rest"
    and nn: "filter is_CacheNew rest = []"
    and uc: "uastCache (snd (getUAST_filter H lang xpath miss node s')) = uastCache s'"
    by blast
  from st ev nn uc show ?thesis by (auto simp add: cache_step_def split: if_splits)
qed

lemma cache_step_getUAST:
  "cache_step cfg s (snd (getUAST E P H cfg blob lang xpath mode s))"
proof (cases "getUAST_resolve E P cfg blob lang xpath mode s")
  case (Pair r s')
  with cache_step_resolve [of cfg s E P blob lang xpath mode]
  have st: "cache_step cfg s s'" by simp
  show ?thesis
  proof (cases r)
    case (Done x)
    with Pair st show ?thesis by (simp add: getUAST_def)
  next
    case (Resolved node miss)
    with Pair cache_step_filter [OF st, of H lang xpath miss node] show ?thesis
      by (simp add: getUAST_def)
  qed
qed

lemma uastFunc_body_state:
  "snd (uastFunc_body E P H cfg a s) = s
   \<or> (\<exists>f m. snd (uastFunc_body E P H cfg a s) = s\<lparr>events := events s @ [LogWarn f m, CtxWarn 0 m]\<rparr>)
   \<or> (\<exists>bytes lang xpath mode.
         snd (uastFunc_body E P H cfg a s) = snd (getUAST E P H cfg bytes lang xpath mode s))"
proof (cases "a_Mode a")
  case (Panics r)
  then show ?thesis by (simp add: uastFunc_body_def)
next
  case (Returns rm)
  note rm = Returns
  show ?thesis
  proof (cases rm)
    case (Inl err)
    with rm show ?thesis by (simp add: uastFunc_body_def)
  next
    case (Inr m)
    note m = rm Inr
    show ?thesis
    proof (cases "ParseMode E m")
      case (Inl err)
      with m show ?thesis by (simp add: uastFunc_body_def)
    next
      case (Inr mode)
      note mode = m Inr
      show ?thesis
      proof (cases "a_Blob a")
        case (Panics r)
        with mode show ?thesis by (simp add: uastFunc_body_def)
      next
        case (Returns rb)
        note rb = mode Returns
        show ?thesis
        proof (cases rb)
          case (Inl err)
          with rb show ?thesis by (simp add: uastFunc_body_def)
        next
          case (Inr blob)
          note blob = rb Inr
          show ?thesis
          proof (cases "blob = SqlNull")
            case True
            with blob show ?thesis by (simp add: uastFunc_body_def)
          next
            case False
            note nn = False
            show ?thesis
            proof (cases "Blob_Convert E blob")
              case (Inl err)
              with blob nn show ?thesis by (cases blob) (simp_all add: uastFunc_body_def)
            next
              case (Inr bytes)
              note bytes = Inr
              have tail: "snd (uastFunc_body E P H cfg a s) =
                snd (if length bytes = 0 then (Returns (SqlNull, None), s)
                  else if uastMaxBlobSize cfg \<ge> 0 \<and> int (length bytes) > uastMaxBlobSize cfg then
                    (Returns (SqlNull, None),
                     s\<lparr>events := events s @
                       [LogWarn [(''max'', uastMaxBlobSize cfg), (''size'', int (length bytes))] too_big_msg,
                        CtxWarn 0 too_big_msg]\<rparr>)
                  else
                    (case a_Lang a of
                       Panics r \<Rightarrow> (Panics r, s)
                     | Returns (Inl err) \<Rightarrow> (Returns (SqlNull, Some err), s)
                     | Returns (Inr lang) \<Rightarrow>
                    (case a_XPath a of
                       Panics r \<Rightarrow> (Panics r, s)
                     | Returns (Inl err) \<Rightarrow> (Returns (SqlNull, Some err), s)
                     | Returns (Inr xpath) \<Rightarrow> getUAST E P H cfg bytes (ToLower E lang) xpath mode s)))"
                using blob nn bytes by (cases blob) (simp_all add: uastFunc_body_def)
              show ?thesis
                unfolding tail
                by (simp split: go.splits sum.splits) blast
            qed
          qed
        qed
      qed
    qed
  qed
qed

lemma cache_step_Eval:
  "cache_step cfg s (snd (uastFunc_Eval E P H cfg a s))"
proof -
  have w: "cache_step cfg s (s\<lparr>events := events s @ [LogWarn f m, CtxWarn 0 m]\<rparr>)" for f m
    by (simp add: cache_step_def)
  from uastFunc_body_state [of E P H cfg a s] w cache_step_refl [of cfg s]
    cache_step_getUAST [of cfg s E P H]
  have "cache_step cfg s (snd (uastFunc_body E P H cfg a s))" by metis
  then show ?thesis by (simp add: uastFunc_Eval_body)
qed

lemma run_evals_created:
  "uastCache s \<noteq> None \<Longrightarrow>
   uastCache (run_evals E P H cfg as s) \<noteq> None
   \<and> filter is_CacheNew (events (run_evals E P H cfg as s)) = filter is_CacheNew (events s)"
proof (induction as arbitrary: s)
  case Nil
  then show ?case by simp
next
  case (Cons a as)
  from Cons.prems cache_step_Eval [of cfg s E P H a]
  have "uastCache (snd (uastFunc_Eval E P H cfg a s)) \<noteq> None"
    and "filter is_CacheNew (events (snd (uastFunc_Eval E P H cfg a s))) = filter is_CacheNew (events s)"
    by (simp_all add: cache_step_def)
  with Cons.IH [of "snd (uastFunc_Eval E P H cfg a s)"] show ?case by simp
qed

lemma run_evals_fresh:
  "uastCache s = None \<Longrightarrow>
   filter is_CacheNew (events (run_evals E P H cfg as s)) = filter is_CacheNew (events s)
   \<or> filter is_CacheNew (events (run_evals E P H cfg as s))
       = filter is_CacheNew (events s) @ [CacheNew (uint_of_int (uastCacheSize cfg))]"
proof (induction as arbitrary: s)
  case Nil
  then show ?case by simp
next
  case (Cons a as)
  let ?s1 = "snd (uastFunc_Eval E P H cfg a s)"
  show ?case
  proof (cases "uastCache ?s1 = None")
    case True
    with Cons.prems cache_step_Eval [of cfg s E P H a]
    have "filter is_CacheNew (events ?s1) = filter is_CacheNew (events s)"
      by (simp add: cache_step_def)
    with Cons.IH [OF True] show ?thesis by simp
  next
    case False
    with Cons.prems cache_step_Eval [of cfg s E P H a]
    have "filter is_CacheNew (events ?s1)
            = filter is_CacheNew (events s) @ [CacheNew (uint_of_int (uastCacheSize cfg))]"
      by (simp add: cache_step_def)
    with run_evals_created [OF False, of E P H cfg as] show ?thesis by simp
  qed
qed

lemma init_cacheSize:
  "uastCacheSize (init os) =
     (case Atoi os (Getenv os uastCacheSizeKey) of
        Inl err \<Rightarrow> 10000
      | Inr n \<Rightarrow> if n \<le> 0 then 10000 else n)"
  by (simp add: init_def Let_def defaultUASTCacheSize_def split: sum.splits)

lemma init_cacheSize_pos: "0 < uastCacheSize (init os)"
  by (simp add: init_cacheSize split: sum.splits)

lemma getUASTCache_create:
  "uastCache s = None \<Longrightarrow>
   getUASTCache E cfg s =
     (NewLRUCache E (uint_of_int (uastCacheSize cfg)),
      s\<lparr>uastCache := Some (NewLRUCache E (uint_of_int (uastCacheSize cfg))),
        events := events s @ [CacheNew (uint_of_int (uastCacheSize cfg))]\<rparr>)"
  by (simp add: getUASTCache_def Let_def)

lemma getUASTCache_reuse:
  "uastCache s = Some c \<Longrightarrow> getUASTCache E cfg s = (c, s)"
  by (simp add: getUASTCache_def)

text \<open>
  C9: the capacity set by \<open>init\<close> is positive; it is 10000 when the variable is not an
  integer or is not positive, and the value of the variable otherwise. \<open>getUASTCache\<close>
  creates the cache with that capacity when there is none yet, and returns the
  existing one otherwise. Over any run of evaluations from a state without a cache,
  the cache is created at most once; once there is a cache, every later state has one
  and no evaluation creates another.
\<close>

theorem cache_capacity_and_creation:
  "0 < uastCacheSize (init os)
   \<and> uastCacheSize (init os) =
       (case Atoi os (Getenv os uastCacheSizeKey) of
          Inl err \<Rightarrow> 10000
        | Inr n \<Rightarrow> if n \<le> 0 then 10000 else n)
   \<and> (uastCache s = None \<longrightarrow>
        getUASTCache E cfg s =
          (NewLRUCache E (uint_of_int (uastCacheSize cfg)),
           s\<lparr>uastCache := Some (NewLRUCache E (uint_of_int (uastCacheSize cfg))),
             events := events s @ [CacheNew (uint_of_int (uastCacheSize cfg))]\<rparr>))
   \<and> (uastCache s = Some c \<longrightarrow> getUASTCache E cfg s = (c, s))
   \<and> (uastCache s = None \<and> filter is_CacheNew (events s) = [] \<longrightarrow>
        length (filter is_CacheNew (events (run_evals E P H cfg as s))) \<le> 1)
   \<and> (uastCache s \<noteq> None \<longrightarrow>
        uastCache (run_evals E P H cfg as s) \<noteq> None
        \<and> filter is_CacheNew (events (run_evals E P H cfg as s)) = filter is_CacheNew (events s))"
proof -
  have once: "length (filter is_CacheNew (events (run_evals E P H cfg as s))) \<le> 1"
    if "uastCache s = None" and "filter is_CacheNew (events s) = []"
    using run_evals_fresh [OF that(1), of E P H cfg as] that(2) by auto
  show ?thesis
    using init_cacheSize_pos [of os] init_cacheSize [of os]
      getUASTCache_create [of s E cfg] getUASTCache_reuse [of s c E cfg]
      once run_evals_created [of s E P H cfg as]
    by blast
qed


theorem cache_capacity_and_creation_witness:
  "uastCacheSize (init \<lparr>Getenv = (\<lambda>k. ''0''),
                        Atoi = (\<lambda>s. if s = ''0'' then Inr 0 else Inl (Errorf ''invalid syntax''))\<rparr>)
     = 10000
   \<and> getUASTCache (stub_env (\<lambda>evs blob lang xpath mode. Returns (Inr (Object []))))
        (stub_config 5242880) fresh
     = ([], \<lparr>uastCache = Some [], u_h = 0, events = [CacheNew 10000]\<rparr>)
   \<and> length (filter is_CacheNew (events
        (run_evals (stub_env (\<lambda>evs blob lang xpath mode. Returns (Inr (Object []))))
           stub_hash (stub_helpers [] (\<lambda>n q. Returns (Inr []))) (stub_config 5242880)
           [stub_args ''semantic'' [1, 2] ''go'' [], stub_args ''semantic'' [1, 2] ''go'' []]
           fresh))) \<le> 1
   \<and> getUASTCache (stub_env (\<lambda>evs blob lang xpath mode. Returns (Inr (Object []))))
        (stub_config 5242880)
        (\<lparr>uastCache = Some [], u_h = 0, events = [CacheNew 10000]\<rparr>
           :: ((64 word \<times> string node) list, 64 word) ustate)
     = ([], \<lparr>uastCache = Some [], u_h = 0, events = [CacheNew 10000]\<rparr>)
   \<and> uastCache
        (run_evals (stub_env (\<lambda>evs blob lang xpath mode. Returns (Inr (Object []))))
           stub_hash (stub_helpers [] (\<lambda>n q. Returns (Inr []))) (stub_config 5242880)
           [stub_args ''semantic'' [1, 2] ''go'' [], stub_args ''semantic'' [1, 2] ''go'' []]
           \<lparr>uastCache = Some [], u_h = 0, events = [CacheNew 10000]\<rparr>) \<noteq> None"
proof -
  let ?E = "stub_env (\<lambda>evs blob lang xpath mode. Returns (Inr (Object [])))"
  let ?H = "stub_helpers [] (\<lambda>n q. Returns (Inr []))"
  let ?os = "\<lparr>Getenv = (\<lambda>k. ''0''),
              Atoi = (\<lambda>s. if s = ''0'' then Inr 0 else Inl (Errorf ''invalid syntax''))\<rparr>"
  let ?as = "[stub_args ''semantic'' [1, 2] ''go'' [], stub_args ''semantic'' [1, 2] ''go'' []]"
  let ?s1 = "\<lparr>uastCache = Some [], u_h = 0, events = [CacheNew 10000]\<rparr>
               :: ((64 word \<times> string node) list, 64 word) ustate"
  have new: "NewLRUCache ?E n = []" for n by (simp add: stub_env_def)
  have a: "uastCacheSize (init ?os) = 10000
      \<and> getUASTCache ?E (stub_config 5242880) fresh = ([], ?s1)
      \<and> length (filter is_CacheNew (events
           (run_evals ?E stub_hash ?H (stub_config 5242880) ?as fresh))) \<le> 1"
    using cache_capacity_and_creation
      [where os = ?os and s = fresh and E = ?E and cfg = "stub_config 5242880"
         and P = stub_hash and H = ?H and as = ?as]
    by (simp add: fresh_def new stub_config_simps uint_of_int_10000)
  have b: "getUASTCache ?E (stub_config 5242880) ?s1 = ([], ?s1)
      \<and> uastCache (run_evals ?E stub_hash ?H (stub_config 5242880) ?as ?s1) \<noteq> None"
    using cache_capacity_and_creation
      [where os = ?os and s = ?s1 and c = "[]" and E = ?E and cfg = "stub_config 5242880"
         and P = stub_hash and H = ?H and as = ?as]
    by simp
  from a b show ?thesis by blast
qed

end
